theory Spec2Isabelle
  imports Complex_Main "HOL-Library.Word"
begin

unbundle bit_operations_syntax

section \<open>Data model (models/Certificate.model.js)\<close>

text \<open>
  The certificate schema. A JavaScript Number of the payload is a \<open>rat\<close> (every finite
  double is one); counters, token ids, block numbers and timestamps (milliseconds) are
  natural numbers, all far below \<open>2 ^ 53\<close>, where doubles count exactly. A field that may
  be \<open>undefined\<close> is an \<open>option\<close>. Sub-documents the lifecycle never inspects (semesters,
  projects, address, ...) are kept as opaque strings.
\<close>

datatype cert_status = PENDING | MINTED | VERIFIED | REVOKED

record student_data =
  name :: string
  email :: string
  phone :: "string option"
  studentId :: string
  dateOfBirth :: "string option"
  address :: "string option"

record disciplinary =
  clean :: bool
  remarks :: "string option"

record academic_data =
  degree :: string
  specialization :: "string option"
  duration :: string
  admissionYear :: rat
  graduationYear :: rat
  overallCGPA :: rat
  overallPercentage :: rat
  classification :: string
  semesters :: "string list"
  technicalSkills :: "string list"
  softSkills :: "string list"
  certifications :: "string list"
  projects :: "string list"
  internships :: "string list"
  achievements :: "string list"
  thesis :: "string option"
  attendance :: "string option"
  disciplinaryRecord :: disciplinary

record blockchain_info =
  certificateHash :: string
  transactionHash :: "string option"
  blockNumber :: "nat option"

record metadata_info =
  qrCode :: "string option"
  verificationLink :: "string option"
  revocationReason :: "string option"

record certificate =
  cid :: string
  tokenId :: "nat option"
  studentData :: student_data
  college :: string
  academicData :: academic_data
  apiCode :: string
  blockchain :: blockchain_info
  metadata :: metadata_info
  status :: cert_status
  issuedBy :: string
  issuedAt :: nat
  verificationCount :: nat
  lastVerified :: "nat option"

subsection \<open>The text of numbers and dates\<close>

definition digit36 :: "nat \<Rightarrow> char" where
  "digit36 n = ''0123456789abcdefghijklmnopqrstuvwxyz'' ! (n mod 36)"

text \<open>The decimal text of a non-negative integer.\<close>

function toString10 :: "nat \<Rightarrow> string" where
  "toString10 n = (if n < 10 then [digit36 n] else toString10 (n div 10) @ [digit36 (n mod 10)])"
  by pat_completeness auto
termination
  by (relation "measure id") auto

declare toString10.simps [simp del]

text \<open>
  The time zone of the process (the \<open>TZ\<close> setting): at an instant, in milliseconds since
  the epoch, the offset from UTC in minutes (east positive) and the name the runtime
  prints for the zone.
\<close>

record time_zone =
  tz_offset :: "nat \<Rightarrow> int"
  tz_name :: "nat \<Rightarrow> string"

definition padZero :: "nat \<Rightarrow> nat \<Rightarrow> string" where
  "padZero width n = replicate (width - length (toString10 n)) (CHR ''0'') @ toString10 n"

text \<open>
  The civil date of a day number (days since 1 January 1970, in the proleptic Gregorian
  calendar): year, month (1 to 12) and day of the month.
\<close>

definition civilFromDays :: "int \<Rightarrow> int \<times> nat \<times> nat" where
  "civilFromDays days =
     (let z = days + 719468;
          era = z div 146097;
          doe = z mod 146097;
          yoe = (doe - doe div 1460 + doe div 36524 - doe div 146096) div 365;
          doy = doe - (365 * yoe + yoe div 4 - yoe div 100);
          mp = (5 * doy + 2) div 153;
          d = doy - (153 * mp + 2) div 5 + 1;
          m = (if mp < 10 then mp + 3 else mp - 9);
          y = yoe + era * 400 + (if m \<le> 2 then 1 else 0)
      in (y, nat m, nat d))"

text \<open>
  \<open>Date.prototype.toString()\<close>, which a template string applies to a Date: the local date
  and time of the instant in the time zone of the process, as in
  \<open>Thu Jan 01 1970 05:30:00 GMT+0530 (India Standard Time)\<close>. Milliseconds are dropped.
\<close>

definition dateToString :: "time_zone \<Rightarrow> nat \<Rightarrow> string" where
  "dateToString tz t =
     (let off = tz_offset tz t;
          local = int t + off * 60000;
          days = local div 86400000;
          inDay = local mod 86400000;
          weekday = [''Sun'', ''Mon'', ''Tue'', ''Wed'', ''Thu'', ''Fri'', ''Sat'']
                      ! nat ((days + 4) mod 7);
          ymd = civilFromDays days;
          yr = fst ymd;
          month = [''Jan'', ''Feb'', ''Mar'', ''Apr'', ''May'', ''Jun'', ''Jul'', ''Aug'',
                   ''Sep'', ''Oct'', ''Nov'', ''Dec''] ! (fst (snd ymd) - 1)
      in weekday @ '' '' @ month @ '' '' @ padZero 2 (snd (snd ymd)) @ '' '' @
         (if yr < 0 then ''-'' else []) @ padZero 4 (nat \<bar>yr\<bar>) @ '' '' @
         padZero 2 (nat (inDay div 3600000)) @ '':'' @
         padZero 2 (nat (inDay div 60000 mod 60)) @ '':'' @
         padZero 2 (nat (inDay div 1000 mod 60)) @
         '' GMT'' @ (if off < 0 then ''-'' else ''+'') @
         padZero 2 (nat (\<bar>off\<bar> div 60)) @ padZero 2 (nat (\<bar>off\<bar> mod 60)) @
         '' ('' @ tz_name tz t @ '')'')"

text \<open>
  What a call of \<open>generateHash\<close> finds in the process it runs in: SHA-256 of the
  \<open>crypto\<close> library (a 256-bit digest), the text the language gives a Number, and the
  time zone.
\<close>

record js_runtime =
  sha256 :: "string \<Rightarrow> 256 word"
  numToString :: "rat \<Rightarrow> string"
  timeZone :: time_zone

subsection \<open>generateHash\<close>

definition hexDigit :: "nat \<Rightarrow> char" where
  "hexDigit n = ''0123456789abcdef'' ! (n mod 16)"

text \<open>\<open>digest('hex')\<close>: the 32 bytes of the digest, two lower-case hex digits each.\<close>

definition digestHex :: "256 word \<Rightarrow> string" where
  "digestHex w = map (\<lambda>i. hexDigit (unat (drop_bit (4 * (63 - i)) w AND 15))) [0..<64]"

text \<open>
  The text that is hashed:
  \<open>`${name}-${degree}-${overallCGPA}-${graduationYear}-${this.issuedAt}`\<close>, the last
  part a Date and so its local-time text.
\<close>

definition hashData :: "js_runtime \<Rightarrow> certificate \<Rightarrow> string" where
  "hashData rt c =
     name (studentData c) @ ''-'' @ degree (academicData c) @ ''-'' @
     numToString rt (overallCGPA (academicData c)) @ ''-'' @
     numToString rt (graduationYear (academicData c)) @ ''-'' @
     dateToString (timeZone rt) (issuedAt c)"

definition generateHash :: "js_runtime \<Rightarrow> certificate \<Rightarrow> string" where
  "generateHash rt c = digestHex (sha256 rt (hashData rt c))"

definition isHexChar :: "char \<Rightarrow> bool" where
  "isHexChar ch = (ch \<in> set ''0123456789abcdefABCDEF'')"

definition allHex :: "string \<Rightarrow> bool" where
  "allHex s = list_all isHexChar s"

subsection \<open>SHA-256\<close>

text \<open>
  The digest function of the \<open>crypto\<close> library, SHA-256 as FIPS 180-4 defines it, on the
  bytes of the text. A 32-bit word is the list of its bits, least significant first.
\<close>

type_synonym bits = "bool list"

fun addc :: "bool \<Rightarrow> bits \<Rightarrow> bits \<Rightarrow> bits" where
  "addc c (x # xs) (y # ys) = ((x \<noteq> y) \<noteq> c) # addc ((x \<and> y) \<or> (c \<and> (x \<noteq> y))) xs ys"
| "addc c xs ys = []"

definition add32 :: "bits \<Rightarrow> bits \<Rightarrow> bits" where
  "add32 x y = addc False x y"

definition xor32 :: "bits \<Rightarrow> bits \<Rightarrow> bits" where
  "xor32 x y = map2 (\<noteq>) x y"

definition and32 :: "bits \<Rightarrow> bits \<Rightarrow> bits" where
  "and32 x y = map2 (\<and>) x y"

definition not32 :: "bits \<Rightarrow> bits" where
  "not32 x = map Not x"

definition sha_rotr :: "nat \<Rightarrow> bits \<Rightarrow> bits" where
  "sha_rotr n x = drop n x @ take n x"

definition sha_shr :: "nat \<Rightarrow> bits \<Rightarrow> bits" where
  "sha_shr n x = drop n x @ replicate n False"

definition nibbleBits :: "char \<Rightarrow> bits" where
  "nibbleBits ch =
     (case map_of
        [(CHR ''0'', [False, False, False, False]), (CHR ''1'', [True, False, False, False]),
         (CHR ''2'', [False, True, False, False]), (CHR ''3'', [True, True, False, False]),
         (CHR ''4'', [False, False, True, False]), (CHR ''5'', [True, False, True, False]),
         (CHR ''6'', [False, True, True, False]), (CHR ''7'', [True, True, True, False]),
         (CHR ''8'', [False, False, False, True]), (CHR ''9'', [True, False, False, True]),
         (CHR ''a'', [False, True, False, True]), (CHR ''b'', [True, True, False, True]),
         (CHR ''c'', [False, False, True, True]), (CHR ''d'', [True, False, True, True]),
         (CHR ''e'', [False, True, True, True]), (CHR ''f'', [True, True, True, True])] ch of
        Some b \<Rightarrow> b | None \<Rightarrow> [False, False, False, False])"

text \<open>A word from its hexadecimal text, most significant digit first.\<close>

definition hexWord :: "string \<Rightarrow> bits" where
  "hexWord s = concat (map nibbleBits (rev s))"

definition sha_K :: "bits list" where
  "sha_K = map hexWord
     [''428a2f98'', ''71374491'', ''b5c0fbcf'', ''e9b5dba5'', ''3956c25b'', ''59f111f1'',
      ''923f82a4'', ''ab1c5ed5'', ''d807aa98'', ''12835b01'', ''243185be'', ''550c7dc3'',
      ''72be5d74'', ''80deb1fe'', ''9bdc06a7'', ''c19bf174'', ''e49b69c1'', ''efbe4786'',
      ''0fc19dc6'', ''240ca1cc'', ''2de92c6f'', ''4a7484aa'', ''5cb0a9dc'', ''76f988da'',
      ''983e5152'', ''a831c66d'', ''b00327c8'', ''bf597fc7'', ''c6e00bf3'', ''d5a79147'',
      ''06ca6351'', ''14292967'', ''27b70a85'', ''2e1b2138'', ''4d2c6dfc'', ''53380d13'',
      ''650a7354'', ''766a0abb'', ''81c2c92e'', ''92722c85'', ''a2bfe8a1'', ''a81a664b'',
      ''c24b8b70'', ''c76c51a3'', ''d192e819'', ''d6990624'', ''f40e3585'', ''106aa070'',
      ''19a4c116'', ''1e376c08'', ''2748774c'', ''34b0bcb5'', ''391c0cb3'', ''4ed8aa4a'',
      ''5b9cca4f'', ''682e6ff3'', ''748f82ee'', ''78a5636f'', ''84c87814'', ''8cc70208'',
      ''90befffa'', ''a4506ceb'', ''bef9a3f7'', ''c67178f2'']"

definition sha_H0 :: "bits list" where
  "sha_H0 = map hexWord
     [''6a09e667'', ''bb67ae85'', ''3c6ef372'', ''a54ff53a'',
      ''510e527f'', ''9b05688c'', ''1f83d9ab'', ''5be0cd19'']"

definition byteBits :: "char \<Rightarrow> bits" where
  "byteBits ch =
     (case ch of Char b0 b1 b2 b3 b4 b5 b6 b7 \<Rightarrow> [b0, b1, b2, b3, b4, b5, b6, b7])"

fun natBits :: "nat \<Rightarrow> nat \<Rightarrow> bits" where
  "natBits 0 n = []"
| "natBits (Suc k) n = (n mod 2 = 1) # natBits k (n div 2)"

fun bytesOf :: "bits \<Rightarrow> bits list" where
  "bytesOf (b0 # b1 # b2 # b3 # b4 # b5 # b6 # b7 # rest) =
     [b0, b1, b2, b3, b4, b5, b6, b7] # bytesOf rest"
| "bytesOf rest = []"

text \<open>
  The padded message, byte by byte: the text, the byte 0x80, zero bytes up to 56 modulo
  64, and the length of the text in bits as 64 bits, most significant byte first.
\<close>

definition sha_pad :: "string \<Rightarrow> bits list" where
  "sha_pad s =
     (let n = length s;
          zeros = (119 - n mod 64) mod 64
      in map byteBits s @ [byteBits (CHR 0x80)] @ replicate zeros (replicate 8 False) @
         rev (bytesOf (natBits 64 (8 * n))))"

text \<open>Four bytes make a word, the first byte the most significant.\<close>

fun be32 :: "bits list \<Rightarrow> bits list" where
  "be32 (a # b # c # d # rest) = (d @ c @ b @ a) # be32 rest"
| "be32 rest = []"

text \<open>The message schedule: the words 16 to 63, from a window of the last sixteen.\<close>

fun sha_expand :: "nat \<Rightarrow> bits list \<Rightarrow> bits list" where
  "sha_expand (Suc k) [w0, w1, w2, w3, w4, w5, w6, w7, w8, w9, w10, w11, w12, w13, w14, w15] =
     (let s0 = xor32 (xor32 (sha_rotr 7 w1) (sha_rotr 18 w1)) (sha_shr 3 w1);
          s1 = xor32 (xor32 (sha_rotr 17 w14) (sha_rotr 19 w14)) (sha_shr 10 w14);
          w16 = add32 (add32 (add32 w0 s0) w9) s1
      in w16 # sha_expand k
           [w1, w2, w3, w4, w5, w6, w7, w8, w9, w10, w11, w12, w13, w14, w15, w16])"
| "sha_expand k win = []"

fun sha_rounds :: "bits list \<Rightarrow> bits list \<Rightarrow> bits list \<Rightarrow> bits list" where
  "sha_rounds (k # ks) (w # ws) [a, b, c, d, e, f, g, h] =
     (let S1 = xor32 (xor32 (sha_rotr 6 e) (sha_rotr 11 e)) (sha_rotr 25 e);
          ch = xor32 (and32 e f) (and32 (not32 e) g);
          t1 = add32 (add32 (add32 (add32 h S1) ch) k) w;
          S0 = xor32 (xor32 (sha_rotr 2 a) (sha_rotr 13 a)) (sha_rotr 22 a);
          mj = xor32 (xor32 (and32 a b) (and32 a c)) (and32 b c);
          t2 = add32 S0 mj
      in sha_rounds ks ws [add32 t1 t2, a, b, c, add32 d t1, e, f, g])"
| "sha_rounds ks ws st = st"

definition sha_block :: "bits list \<Rightarrow> bits list \<Rightarrow> bits list" where
  "sha_block hs m = map2 add32 hs (sha_rounds sha_K (m @ sha_expand 48 m) hs)"

fun sha_blocks :: "bits list \<Rightarrow> bits list \<Rightarrow> bits list" where
  "sha_blocks hs (w0 # w1 # w2 # w3 # w4 # w5 # w6 # w7 # w8 # w9 # w10 # w11 # w12 # w13
      # w14 # w15 # rest) =
     sha_blocks
       (sha_block hs [w0, w1, w2, w3, w4, w5, w6, w7, w8, w9, w10, w11, w12, w13, w14, w15])
       rest"
| "sha_blocks hs rest = hs"

text \<open>The digest: its 256 bits, most significant first, and as a 256-bit word.\<close>

definition sha_bits :: "string \<Rightarrow> bits" where
  "sha_bits s = concat (map rev (sha_blocks sha_H0 (be32 (sha_pad s))))"

definition sha256_fips :: "string \<Rightarrow> 256 word" where
  "sha256_fips s = foldl (\<lambda>acc b. 2 * acc + (if b then 1 else 0)) 0 (sha_bits s)"

subsection \<open>The virtual \<open>isValid\<close> and \<open>recordVerification\<close>\<close>

definition isValid_virtual :: "certificate \<Rightarrow> bool" where
  "isValid_virtual c = (status c = MINTED \<or> status c = VERIFIED)"

text \<open>
  \<open>recordVerification\<close> changes the loaded document (\<open>verificationCount += 1\<close>,
  \<open>lastVerified = new Date()\<close>) and then saves it; the save is the store's part below.
\<close>

definition recordVerification_doc :: "nat \<Rightarrow> certificate \<Rightarrow> certificate" where
  "recordVerification_doc now c =
     c\<lparr>verificationCount := verificationCount c + 1, lastVerified := Some now\<rparr>"

subsection \<open>generateApiCode\<close>

text \<open>\<open>Number.prototype.toString(36)\<close> on a non-negative integer.\<close>

function toString36 :: "nat \<Rightarrow> string" where
  "toString36 n = (if n < 36 then [digit36 n] else toString36 (n div 36) @ [digit36 n])"
  by pat_completeness auto
termination
  by (relation "measure id") auto

declare toString36.simps [simp del]

definition toUpperChar :: "char \<Rightarrow> char" where
  "toUpperChar ch =
     (if (97::nat) \<le> of_char ch \<and> of_char ch \<le> (122::nat)
      then char_of (of_char ch - (32::nat)) else ch)"

definition toUpperCase :: "string \<Rightarrow> string" where
  "toUpperCase s = map toUpperChar s"

text \<open>
  \<open>this.college\<close> holds the college's identifier (the controller stores
  \<open>issuer.college._id\<close>), and an identifier has no \<open>code\<close> property: the optional chain
  \<open>this.college?.code\<close> is \<open>undefined\<close> and the prefix is the default \<open>CERT\<close>.
  \<open>nowMs\<close> is \<open>Date.now()\<close>, \<open>yr\<close> is \<open>new Date().getFullYear()\<close> and \<open>rnd\<close> is the text
  of \<open>Math.random().toString(36)\<close>; \<open>substring(2, 8)\<close> is \<open>take 6 (drop 2 rnd)\<close>.
\<close>

definition collegeCodeOf :: "string \<Rightarrow> string option" where
  "collegeCodeOf collegeId = None"

definition generateApiCode :: "nat \<Rightarrow> nat \<Rightarrow> string \<Rightarrow> certificate \<Rightarrow> string" where
  "generateApiCode nowMs yr rnd c =
     (let timestamp = toUpperCase (toString36 nowMs);
          random = toUpperCase (take 6 (drop 2 rnd));
          collegeCode = (case collegeCodeOf (college c) of Some k \<Rightarrow> k | None \<Rightarrow> ''CERT'')
      in collegeCode @ ''-'' @ toString10 yr @ ''-'' @ timestamp @ ''-'' @ random)"

section \<open>The credential store\<close>

text \<open>
  The collection is a list of documents. \<open>save()\<close> on a new document inserts it and fails
  with a duplicate key when the identifier, the access code, the fingerprint or a set
  token is already indexed; \<open>save()\<close> on a loaded document writes its modified paths,
  of which only \<open>tokenId\<close> is under a unique (sparse) index: \<open>tokenModified\<close> says
  whether the token is among them. In a run of one request after the other, writing the
  modified paths and writing the whole document give the same collection. Every store
  operation can also fail for a reason outside the program (the connection is down):
  the environment lists the call sites that fail.
\<close>

datatype store_site =
  UserFind | CertFindById | CertFindByHash | CertFindByApiCode
  | SaveCreated | SaveLinked | SaveMinted | SavePending | SaveVerification | SaveRevoked
  | Populate

datatype error =
  StoreError store_site | DuplicateKey | DocumentNotFound | TypeError string | Error string

definition findById :: "certificate list \<Rightarrow> string \<Rightarrow> certificate option" where
  "findById st i = find (\<lambda>d. cid d = i) st"

definition findByHash :: "certificate list \<Rightarrow> string \<Rightarrow> certificate option" where
  "findByHash st h = find (\<lambda>d. certificateHash (blockchain d) = h) st"

definition findByApiCode :: "certificate list \<Rightarrow> string \<Rightarrow> certificate option" where
  "findByApiCode st a = find (\<lambda>d. apiCode d = a) st"

definition tokenTaken :: "certificate list \<Rightarrow> certificate \<Rightarrow> bool" where
  "tokenTaken st c =
     (case tokenId c of None \<Rightarrow> False
      | Some t \<Rightarrow> list_ex (\<lambda>d. cid d \<noteq> cid c \<and> tokenId d = Some t) st)"

definition keyTaken :: "certificate list \<Rightarrow> certificate \<Rightarrow> bool" where
  "keyTaken st c =
     (list_ex (\<lambda>d. cid d = cid c \<or> apiCode d = apiCode c \<or>
                   certificateHash (blockchain d) = certificateHash (blockchain c)) st
      \<or> tokenTaken st c)"

definition save_new :: "bool \<Rightarrow> store_site \<Rightarrow> certificate list \<Rightarrow> certificate
    \<Rightarrow> error + certificate list" where
  "save_new fault site st c =
     (if fault then Inl (StoreError site)
      else if keyTaken st c then Inl DuplicateKey
      else Inr (st @ [c]))"

definition save_existing :: "bool \<Rightarrow> store_site \<Rightarrow> bool \<Rightarrow> certificate list \<Rightarrow> certificate
    \<Rightarrow> error + certificate list" where
  "save_existing fault site tokenModified st c =
     (if fault then Inl (StoreError site)
      else if tokenModified \<and> tokenTaken st c then Inl DuplicateKey
      else if list_ex (\<lambda>d. cid d = cid c) st
        then Inr (map (\<lambda>d. if cid d = cid c then c else d) st)
      else Inl DocumentNotFound)"

section \<open>The ledger client (services/blockchain.service.js)\<close>

record mint_args =
  ma_walletAddress :: "string option"
  ma_studentName :: "string option"
  ma_degree :: "string option"
  ma_institution :: "string option"
  ma_year :: "rat option"
  ma_certificateHash :: string

record mint_result =
  mr_tokenId :: "nat option"
  mr_transactionHash :: string
  mr_blockNumber :: nat
  mr_gasUsed :: string

record chain_verification =
  cv_studentName :: string
  cv_degree :: string
  cv_institution :: string
  cv_year :: nat
  cv_certificateHash :: string
  cv_timestamp :: nat
  cv_isValid :: bool
  cv_owner :: string

record hash_verification =
  hv_tokenId :: nat
  hv_studentName :: string
  hv_degree :: string
  hv_institution :: string
  hv_year :: nat
  hv_isValid :: bool

record revoke_result =
  rr_transactionHash :: string
  rr_blockNumber :: nat

text \<open>
  The deployed contract behind \<open>this.contract\<close>: what each call (with its wait for the
  receipt) returns, \<open>Inl\<close> the message of the error it throws.
\<close>

record contract =
  k_mintCertificate :: "mint_args \<Rightarrow> string + mint_result"
  k_verifyCertificate :: "nat \<Rightarrow> string + chain_verification"
  k_verifyCertificateByHash :: "string \<Rightarrow> string + hash_verification"
  k_revokeCertificate :: "nat \<Rightarrow> string + revoke_result"

text \<open>
  The three \<open>Math.random()\<close> draws of the mock mint: two as numbers in \<open>[0, 1)\<close> and the
  one of the transaction hash as its text in base 16.
\<close>

record mock_random =
  rnd_token :: rat
  rnd_tx16 :: string
  rnd_block :: rat

definition bc_mintCertificate :: "contract option \<Rightarrow> mock_random \<Rightarrow> string option
    \<Rightarrow> academic_data \<Rightarrow> string \<Rightarrow> error + mint_result" where
  "bc_mintCertificate k g walletAddress certificateData hash =
     (case k of
        None \<Rightarrow>
          Inr \<lparr>mr_tokenId = Some (nat \<lfloor>rnd_token g * 10000\<rfloor>),
               mr_transactionHash = ''0x'' @ take 64 (drop 2 (rnd_tx16 g)),
               mr_blockNumber = nat \<lfloor>rnd_block g * 1000000\<rfloor>,
               mr_gasUsed = ''21000''\<rparr>
      | Some kc \<Rightarrow>
          (case k_mintCertificate kc
                  \<lparr>ma_walletAddress = walletAddress, ma_studentName = None,
                   ma_degree = Some (degree certificateData), ma_institution = None,
                   ma_year = None, ma_certificateHash = hash\<rparr> of
             Inl m \<Rightarrow> Inl (Error (''Minting failed: '' @ m))
           | Inr r \<Rightarrow> Inr r))"

definition bc_verifyCertificate :: "contract option \<Rightarrow> nat \<Rightarrow> nat
    \<Rightarrow> error + chain_verification" where
  "bc_verifyCertificate k nowMs t =
     (case k of
        None \<Rightarrow>
          Inr \<lparr>cv_studentName = ''Mock Student'', cv_degree = ''Mock Degree'',
               cv_institution = ''Mock Institution'', cv_year = 2024,
               cv_certificateHash = ''mock_hash'', cv_timestamp = nowMs,
               cv_isValid = True,
               cv_owner = ''0x0000000000000000000000000000000000000000''\<rparr>
      | Some kc \<Rightarrow>
          (case k_verifyCertificate kc t of
             Inl m \<Rightarrow> Inl (Error (''Verification failed: '' @ m))
           | Inr r \<Rightarrow> Inr r))"

definition bc_verifyCertificateByHash :: "contract option \<Rightarrow> string
    \<Rightarrow> error + hash_verification" where
  "bc_verifyCertificateByHash k h =
     (case k of
        None \<Rightarrow> Inl (Error (''Hash verification failed: '' @ ''Contract not initialized''))
      | Some kc \<Rightarrow>
          (case k_verifyCertificateByHash kc h of
             Inl m \<Rightarrow> Inl (Error (''Hash verification failed: '' @ m))
           | Inr r \<Rightarrow> Inr r))"

definition bc_revokeCertificate :: "contract option \<Rightarrow> nat \<Rightarrow> error + revoke_result" where
  "bc_revokeCertificate k t =
     (case k of
        None \<Rightarrow> Inl (Error (''Revocation failed: '' @ ''Contract not initialized''))
      | Some kc \<Rightarrow>
          (case k_revokeCertificate kc t of
             Inl m \<Rightarrow> Inl (Error (''Revocation failed: '' @ m))
           | Inr r \<Rightarrow> Inr r))"

section \<open>The QR service (services/qr.service.js)\<close>

text \<open>
  \<open>generateQRCode\<close> builds \<open>${baseUrl}/verify/${certificateId}\<close> from its argument and
  has the renderer (\<open>QRCode.toDataURL\<close>, outside the program) turn it into an image;
  \<open>Inl\<close> is the message of the renderer's error.
\<close>

definition baseUrlOf :: "string option \<Rightarrow> string" where
  "baseUrlOf clientUrl =
     (case clientUrl of None \<Rightarrow> ''http://localhost:3000''
      | Some u \<Rightarrow> if u = [] then ''http://localhost:3000'' else u)"

definition generateQRCode :: "string option \<Rightarrow> (string \<Rightarrow> string + string) \<Rightarrow> string
    \<Rightarrow> error + string" where
  "generateQRCode clientUrl render certificateId =
     (case render (baseUrlOf clientUrl @ ''/verify/'' @ certificateId) of
        Inl m \<Rightarrow> Inl (Error (''QR generation failed: '' @ m))
      | Inr dataUrl \<Rightarrow> Inr dataUrl)"

text \<open>The patterns \<open>/^[0-9a-fA-F]{24}$/\<close> and \<open>/^[a-fA-F0-9]{64}$/\<close>.\<close>

definition isHex24 :: "string \<Rightarrow> bool" where
  "isHex24 s = (length s = 24 \<and> allHex s)"

definition isHex64 :: "string \<Rightarrow> bool" where
  "isHex64 s = (length s = 64 \<and> allHex s)"

definition lastN :: "nat \<Rightarrow> string \<Rightarrow> string" where
  "lastN n s = drop (length s - n) s"

text \<open>
  The pattern \<open>/\/verify\/([a-fA-F0-9]{24}|hash\/[a-fA-F0-9]{64})$/\<close>, not anchored at the
  start: the text ends with \<open>/verify/\<close> and 24 hex digits, or with \<open>/verify/hash/\<close> and
  64 hex digits (never both: the 25th character from the end is a hex digit in the
  second form and \<open>/\<close> in the first). The result is the first capture group.
\<close>

definition urlPatternMatch :: "string \<Rightarrow> string option" where
  "urlPatternMatch s =
     (if 32 \<le> length s \<and> take 8 (lastN 32 s) = ''/verify/'' \<and> allHex (lastN 24 s)
        then Some (lastN 24 s)
      else if 77 \<le> length s \<and> take 13 (lastN 77 s) = ''/verify/hash/'' \<and> allHex (lastN 64 s)
        then Some (lastN 69 s)
      else None)"

datatype qr_type = CertificateId | CertificateHash | Unknown

record qr_validation =
  qv_type :: qr_type
  qv_value :: string
  qv_isValid :: bool

definition validateQRData :: "string \<Rightarrow> qr_validation" where
  "validateQRData qrData =
     (if isHex24 qrData then \<lparr>qv_type = CertificateId, qv_value = qrData, qv_isValid = True\<rparr>
      else if isHex64 qrData
        then \<lparr>qv_type = CertificateHash, qv_value = qrData, qv_isValid = True\<rparr>
      else (case urlPatternMatch qrData of
              Some path \<Rightarrow>
                if take 5 path = ''hash/''
                  then \<lparr>qv_type = CertificateHash, qv_value = drop 5 path, qv_isValid = True\<rparr>
                  else \<lparr>qv_type = CertificateId, qv_value = path, qv_isValid = True\<rparr>
            | None \<Rightarrow> \<lparr>qv_type = Unknown, qv_value = qrData, qv_isValid = False\<rparr>))"

section \<open>Requests, responses and the world the controllers run in\<close>

record college_doc =
  col_id :: string
  col_code :: string
  col_walletAddress :: "string option"

record user_doc =
  user_college :: "college_doc option"

datatype ledger_call =
  MintCall "string option" string bool
  | VerifyCall nat bool
  | VerifyByHashCall string bool
  | RevokeCall nat bool

text \<open>
  The state the controllers read and write: the certificate collection, the users (with
  their college populated) and, as a trace, the calls made to the ledger client, each
  with whether it returned (\<open>True\<close>) or threw.
\<close>

record world =
  certs :: "certificate list"
  users :: "(string \<times> user_doc) list"
  ledgerCalls :: "ledger_call list"

text \<open>
  What a request finds around it: the contract (\<open>None\<close> is the mock mode), the random
  draws, the clock, the failing store call sites and, for issuance, the identifier of
  the new document, the calendar year, the text of \<open>Math.random().toString(36)\<close>,
  \<open>process.env.CLIENT_URL\<close> and the QR renderer.
\<close>

record env =
  runtime :: js_runtime
  contract :: "contract option"
  mockRandom :: mock_random
  now :: nat
  failing :: "store_site list"
  newId :: string
  year :: nat
  random36 :: string
  clientUrl :: "string option"
  qrRender :: "string \<Rightarrow> string + string"

definition down :: "env \<Rightarrow> store_site \<Rightarrow> bool" where
  "down e site = List.member (failing e) site"

record academic_input =
  in_degree :: string
  in_specialization :: "string option"
  in_duration :: string
  in_admissionYear :: rat
  in_graduationYear :: rat
  in_overallCGPA :: rat
  in_overallPercentage :: rat
  in_classification :: string
  in_semesters :: "string list option"
  in_technicalSkills :: "string list option"
  in_softSkills :: "string list option"
  in_certifications :: "string list option"
  in_projects :: "string list option"
  in_internships :: "string list option"
  in_achievements :: "string list option"
  in_thesis :: "string option"
  in_attendance :: "string option"
  in_disciplinaryRecord :: "disciplinary option"

record issue_request =
  req_studentData :: student_data
  req_academicData :: academic_input

datatype ledger_signal = ByToken chain_verification | ByHash hash_verification

definition signalValid :: "ledger_signal \<Rightarrow> bool" where
  "signalValid sg = (case sg of ByToken v \<Rightarrow> cv_isValid v | ByHash v \<Rightarrow> hv_isValid v)"

record student_access =
  sa_apiCode :: string
  sa_verificationLink :: string
  sa_qrCode :: string

record response =
  httpStatus :: nat
  success :: bool
  message :: "string option"
  isValid :: "bool option"
  errorOf :: "error option"
  warning :: "string option"
  dataCertificate :: "certificate option"
  dataStudentAccess :: "student_access option"
  dataLedger :: "ledger_signal option"

definition reply :: "nat \<Rightarrow> bool \<Rightarrow> string option \<Rightarrow> response" where
  "reply code ok msg =
     \<lparr>httpStatus = code, success = ok, message = msg, isValid = None, errorOf = None,
      warning = None, dataCertificate = None, dataStudentAccess = None, dataLedger = None\<rparr>"

definition failed :: "string \<Rightarrow> error \<Rightarrow> response" where
  "failed msg e = (reply 500 False (Some msg))\<lparr>errorOf := Some e\<rparr>"

section \<open>The verification controller (controllers/verify.controller.js)\<close>

text \<open>
  The validity flag of the three handlers:
  \<open>certificate.status === 'MINTED' && (!blockchainVerification || blockchainVerification.isValid)\<close>.
\<close>

definition verdict :: "certificate \<Rightarrow> ledger_signal option \<Rightarrow> bool" where
  "verdict c bv =
     (status c = MINTED \<and> (case bv of None \<Rightarrow> True | Some sg \<Rightarrow> signalValid sg))"

text \<open>
  \<open>if (certificate.tokenId) { try { ... verifyCertificate(tokenId) } catch { } }\<close>: a token
  that is \<open>undefined\<close> or \<open>0\<close> is falsy and skips the call; an error of the call is
  logged and leaves \<open>blockchainVerification\<close> null.
\<close>

definition crossCheck :: "world \<Rightarrow> env \<Rightarrow> certificate \<Rightarrow> ledger_signal option \<times> world" where
  "crossCheck w e c =
     (case tokenId c of
        None \<Rightarrow> (None, w)
      | Some t \<Rightarrow>
          if t = 0 then (None, w)
          else (case bc_verifyCertificate (contract e) (now e) t of
                  Inl err \<Rightarrow> (None, w\<lparr>ledgerCalls := ledgerCalls w @ [VerifyCall t False]\<rparr>)
                | Inr v \<Rightarrow>
                    (Some (ByToken v),
                     w\<lparr>ledgerCalls := ledgerCalls w @ [VerifyCall t True]\<rparr>)))"

text \<open>
  The tail the three handlers share: \<open>await certificate.recordVerification()\<close>, the
  validity flag, the response. A failing save reaches the handler's \<open>catch\<close>.
\<close>

definition recordAndRespond :: "world \<Rightarrow> env \<Rightarrow> certificate \<Rightarrow> ledger_signal option
    \<Rightarrow> string \<Rightarrow> response \<times> world" where
  "recordAndRespond w e c bv failMsg =
     (let c' = recordVerification_doc (now e) c in
      case save_existing (down e SaveVerification) SaveVerification False (certs w) c' of
        Inl err \<Rightarrow> ((failed failMsg err)\<lparr>isValid := Some False\<rparr>, w)
      | Inr st \<Rightarrow>
          ((reply 200 True None)
             \<lparr>isValid := Some (verdict c' bv), dataCertificate := Some c', dataLedger := bv\<rparr>,
           w\<lparr>certs := st\<rparr>))"

definition notFound :: "string \<Rightarrow> response" where
  "notFound msg = (reply 404 False (Some msg))\<lparr>isValid := Some False\<rparr>"

definition verifyCertificateById :: "world \<Rightarrow> env \<Rightarrow> string \<Rightarrow> response \<times> world" where
  "verifyCertificateById w e i =
     (if down e CertFindById
        then ((failed ''Verification failed'' (StoreError CertFindById))
                \<lparr>isValid := Some False\<rparr>, w)
      else (case findById (certs w) i of
              None \<Rightarrow> (notFound ''Certificate not found'', w)
            | Some c \<Rightarrow>
                (case crossCheck w e c of
                   (bv, w1) \<Rightarrow> recordAndRespond w1 e c bv ''Verification failed'')))"

text \<open>By fingerprint the ledger is asked whether or not the document has a token.\<close>

definition verifyCertificateByHash :: "world \<Rightarrow> env \<Rightarrow> string \<Rightarrow> response \<times> world" where
  "verifyCertificateByHash w e h =
     (if down e CertFindByHash
        then ((failed ''Verification failed'' (StoreError CertFindByHash))
                \<lparr>isValid := Some False\<rparr>, w)
      else (case findByHash (certs w) h of
              None \<Rightarrow> (notFound ''Certificate not found'', w)
            | Some c \<Rightarrow>
                (case bc_verifyCertificateByHash (contract e) h of
                   Inl err \<Rightarrow>
                     recordAndRespond
                       (w\<lparr>ledgerCalls := ledgerCalls w @ [VerifyByHashCall h False]\<rparr>)
                       e c None ''Verification failed''
                 | Inr v \<Rightarrow>
                     recordAndRespond
                       (w\<lparr>ledgerCalls := ledgerCalls w @ [VerifyByHashCall h True]\<rparr>)
                       e c (Some (ByHash v)) ''Verification failed'')))"

text \<open>
  \<open>verifyByQRCode\<close> looks the text up as an identifier when it is 24 hex digits, and
  otherwise (or when that finds nothing) as a fingerprint, the text as it is.
\<close>

definition verifyByQRCode :: "world \<Rightarrow> env \<Rightarrow> string \<Rightarrow> response \<times> world" where
  "verifyByQRCode w e qrData =
     (if isHex24 qrData \<and> down e CertFindById
        then ((failed ''QR verification failed'' (StoreError CertFindById))
                \<lparr>isValid := Some False\<rparr>, w)
      else (case (if isHex24 qrData then findById (certs w) qrData else None) of
              Some c \<Rightarrow>
                (case crossCheck w e c of
                   (bv, w1) \<Rightarrow> recordAndRespond w1 e c bv ''QR verification failed'')
            | None \<Rightarrow>
                if down e CertFindByHash
                  then ((failed ''QR verification failed'' (StoreError CertFindByHash))
                          \<lparr>isValid := Some False\<rparr>, w)
                else (case findByHash (certs w) qrData of
                        None \<Rightarrow> (notFound ''Invalid QR code or certificate not found'', w)
                      | Some c \<Rightarrow>
                          (case crossCheck w e c of
                             (bv, w1) \<Rightarrow>
                               recordAndRespond w1 e c bv ''QR verification failed''))))"

section \<open>The certificate controller (controllers/certificate.controller.js)\<close>

definition orEmpty :: "'a list option \<Rightarrow> 'a list" where
  "orEmpty v = (case v of None \<Rightarrow> [] | Some xs \<Rightarrow> xs)"

text \<open>
  \<open>new Certificate({...})\<close>: the payload of the request, absent collections as empty
  lists, and the schema's defaults (\<open>PENDING\<close>, counter 0, \<open>issuedAt = Date.now\<close>).
\<close>

definition newCertificate :: "env \<Rightarrow> string \<Rightarrow> college_doc \<Rightarrow> issue_request \<Rightarrow> certificate" where
  "newCertificate e issuerId col req =
     (let a = req_academicData req in
      \<lparr>cid = newId e,
       tokenId = None,
       studentData = req_studentData req,
       college = col_id col,
       academicData =
         \<lparr>degree = in_degree a, specialization = in_specialization a,
          duration = in_duration a, admissionYear = in_admissionYear a,
          graduationYear = in_graduationYear a, overallCGPA = in_overallCGPA a,
          overallPercentage = in_overallPercentage a, classification = in_classification a,
          semesters = orEmpty (in_semesters a),
          technicalSkills = orEmpty (in_technicalSkills a),
          softSkills = orEmpty (in_softSkills a),
          certifications = orEmpty (in_certifications a),
          projects = orEmpty (in_projects a),
          internships = orEmpty (in_internships a),
          achievements = orEmpty (in_achievements a),
          thesis = in_thesis a, attendance = in_attendance a,
          disciplinaryRecord =
            (case in_disciplinaryRecord a of
               None \<Rightarrow> \<lparr>clean = True, remarks = None\<rparr> | Some d \<Rightarrow> d)\<rparr>,
       apiCode = [],
       blockchain = \<lparr>certificateHash = [], transactionHash = None, blockNumber = None\<rparr>,
       metadata = \<lparr>qrCode = None, verificationLink = None, revocationReason = None\<rparr>,
       status = PENDING,
       issuedBy = issuerId,
       issuedAt = now e,
       verificationCount = 0,
       lastVerified = None\<rparr>)"

definition accessOf :: "certificate \<Rightarrow> string \<Rightarrow> string \<Rightarrow> student_access" where
  "accessOf c link qr = \<lparr>sa_apiCode = apiCode c, sa_verificationLink = link, sa_qrCode = qr\<rparr>"

text \<open>
  The \<open>catch (blockchainError)\<close> block of issuance: status \<open>PENDING\<close>, a save, and the
  201 response with the warning. An error of this save reaches the outer \<open>catch\<close>.
  The token is among the modified paths when the block is entered after a failed save
  of the minted document.
\<close>

definition issuePending :: "world \<Rightarrow> env \<Rightarrow> bool \<Rightarrow> certificate \<Rightarrow> string \<Rightarrow> string
    \<Rightarrow> response \<times> world" where
  "issuePending w e tokenModified c link qr =
     (let cp = c\<lparr>status := PENDING\<rparr> in
      case save_existing (down e SavePending) SavePending tokenModified (certs w) cp of
        Inl err \<Rightarrow> (failed ''Certificate issuance failed'' err, w)
      | Inr st \<Rightarrow>
          ((reply 201 True
              (Some ''Certificate created with complete academic record, blockchain minting pending''))
             \<lparr>warning := Some ''Blockchain minting failed, will retry automatically'',
              dataCertificate := Some cp,
              dataStudentAccess := Some (accessOf cp link qr)\<rparr>,
           w\<lparr>certs := st\<rparr>))"

text \<open>
  The \<open>try\<close> block of issuance: the mint, the anchoring fields, \<open>MINTED\<close>, a save, the
  population of the response. Whatever throws inside it enters the \<open>catch\<close> above, with
  the document as changed so far.
\<close>

definition issueAnchor :: "world \<Rightarrow> env \<Rightarrow> college_doc \<Rightarrow> certificate \<Rightarrow> string \<Rightarrow> string
    \<Rightarrow> response \<times> world" where
  "issueAnchor w e col c link qr =
     (let wallet = col_walletAddress col;
          h = certificateHash (blockchain c)
      in case bc_mintCertificate (contract e) (mockRandom e) wallet (academicData c) h of
           Inl err \<Rightarrow>
             issuePending (w\<lparr>ledgerCalls := ledgerCalls w @ [MintCall wallet h False]\<rparr>)
               e False c link qr
         | Inr m \<Rightarrow>
             (let w1 = w\<lparr>ledgerCalls := ledgerCalls w @ [MintCall wallet h True]\<rparr>;
                  cm = c\<lparr>tokenId := mr_tokenId m,
                         blockchain := (blockchain c)
                           \<lparr>transactionHash := Some (mr_transactionHash m),
                            blockNumber := Some (mr_blockNumber m)\<rparr>,
                         status := MINTED\<rparr>
              in case save_existing (down e SaveMinted) SaveMinted True (certs w1) cm of
                   Inl err \<Rightarrow> issuePending w1 e True cm link qr
                 | Inr st \<Rightarrow>
                     if down e Populate
                       then issuePending (w1\<lparr>certs := st\<rparr>) e False cm link qr
                     else
                       ((reply 201 True
                           (Some ''Certificate issued successfully with complete academic record''))
                          \<lparr>dataCertificate := Some cm,
                           dataStudentAccess := Some (accessOf cm link qr)\<rparr>,
                        w1\<lparr>certs := st\<rparr>)))"

text \<open>
  The document as it is first saved: the new document with its fingerprint and its
  access code.
\<close>

definition draftCertificate :: "env \<Rightarrow> string \<Rightarrow> college_doc \<Rightarrow> issue_request \<Rightarrow> certificate" where
  "draftCertificate e issuerId col req =
     (let c0 = newCertificate e issuerId col req;
          c1 = c0\<lparr>blockchain := (blockchain c0)
                 \<lparr>certificateHash := generateHash (runtime e) c0\<rparr>\<rparr>
      in c1\<lparr>apiCode := generateApiCode (now e) (year e) (random36 e) c1\<rparr>)"

definition verificationLinkOf :: "env \<Rightarrow> certificate \<Rightarrow> string" where
  "verificationLinkOf e c = baseUrlOf (clientUrl e) @ ''/verify/'' @ cid c"

definition withLink :: "certificate \<Rightarrow> string \<Rightarrow> string \<Rightarrow> certificate" where
  "withLink c link qr =
     c\<lparr>metadata := (metadata c)\<lparr>qrCode := Some qr, verificationLink := Some link\<rparr>\<rparr>"

definition issueCertificate :: "world \<Rightarrow> env \<Rightarrow> string \<Rightarrow> issue_request
    \<Rightarrow> response \<times> world" where
  "issueCertificate w e issuerId req =
     (if down e UserFind
        then (failed ''Certificate issuance failed'' (StoreError UserFind), w)
      else (case map_of (users w) issuerId of
        None \<Rightarrow>
          (failed ''Certificate issuance failed''
             (TypeError ''Cannot read properties of null''), w)
      | Some issuer \<Rightarrow>
          (case user_college issuer of
             None \<Rightarrow>
               (reply 400 False (Some ''Issuer must be associated with a college''), w)
           | Some col \<Rightarrow>
               (let c = draftCertificate e issuerId col req in
                case save_new (down e SaveCreated) SaveCreated (certs w) c of
                  Inl err \<Rightarrow> (failed ''Certificate issuance failed'' err, w)
                | Inr st1 \<Rightarrow>
                    (let link = verificationLinkOf e c in
                     case generateQRCode (clientUrl e) (qrRender e) link of
                       Inl err \<Rightarrow>
                         (failed ''Certificate issuance failed'' err, w\<lparr>certs := st1\<rparr>)
                     | Inr qr \<Rightarrow>
                         (case save_existing (down e SaveLinked) SaveLinked False st1
                                 (withLink c link qr) of
                            Inl err \<Rightarrow>
                              (failed ''Certificate issuance failed'' err,
                               w\<lparr>certs := st1\<rparr>)
                          | Inr st2 \<Rightarrow>
                              issueAnchor (w\<lparr>certs := st2\<rparr>) e col
                                (withLink c link qr) link qr))))))"

definition getCertificateByApiCode :: "world \<Rightarrow> env \<Rightarrow> string \<Rightarrow> response \<times> world" where
  "getCertificateByApiCode w e code =
     (if down e CertFindByApiCode
        then (failed ''Failed to fetch certificate'' (StoreError CertFindByApiCode), w)
      else (case findByApiCode (certs w) code of
              None \<Rightarrow>
                (reply 404 False (Some ''Certificate not found with this API code''), w)
            | Some c \<Rightarrow>
                (let c' = recordVerification_doc (now e) c in
                 case save_existing (down e SaveVerification) SaveVerification False (certs w) c' of
                   Inl err \<Rightarrow> (failed ''Failed to fetch certificate'' err, w)
                 | Inr st \<Rightarrow>
                     ((reply 200 True None)\<lparr>dataCertificate := Some c'\<rparr>,
                      w\<lparr>certs := st\<rparr>))))"

text \<open>
  The local part of revocation: \<open>status = 'REVOKED'\<close>, the reason, a save and the
  success response.
\<close>

definition revokeLocal :: "world \<Rightarrow> env \<Rightarrow> certificate \<Rightarrow> string \<Rightarrow> response \<times> world" where
  "revokeLocal w e c reason =
     (let c' = c\<lparr>status := REVOKED,
                  metadata := (metadata c)\<lparr>revocationReason := Some reason\<rparr>\<rparr> in
      case save_existing (down e SaveRevoked) SaveRevoked False (certs w) c' of
        Inl err \<Rightarrow> (failed ''Certificate revocation failed'' err, w)
      | Inr st \<Rightarrow>
          ((reply 200 True (Some ''Certificate revoked successfully''))
             \<lparr>dataCertificate := Some c'\<rparr>,
           w\<lparr>certs := st\<rparr>))"

text \<open>
  \<open>revokeCertificate\<close>: the ledger call is not inside a \<open>try\<close> of its own, so its error
  goes to the handler's \<open>catch\<close> before the local part runs.
\<close>

definition revokeCertificate :: "world \<Rightarrow> env \<Rightarrow> string \<Rightarrow> string \<Rightarrow> response \<times> world" where
  "revokeCertificate w e i reason =
     (if down e CertFindById
        then (failed ''Certificate revocation failed'' (StoreError CertFindById), w)
      else (case findById (certs w) i of
              None \<Rightarrow> (reply 404 False (Some ''Certificate not found''), w)
            | Some c \<Rightarrow>
                (case tokenId c of
                   None \<Rightarrow> revokeLocal w e c reason
                 | Some t \<Rightarrow>
                     if t = 0 then revokeLocal w e c reason
                     else (case bc_revokeCertificate (contract e) t of
                             Inl err \<Rightarrow>
                               (failed ''Certificate revocation failed'' err,
                                w\<lparr>ledgerCalls := ledgerCalls w @ [RevokeCall t False]\<rparr>)
                           | Inr r \<Rightarrow>
                               revokeLocal
                                 (w\<lparr>ledgerCalls := ledgerCalls w @ [RevokeCall t True]\<rparr>)
                                 e c reason))))"

section \<open>Requests one after the other\<close>

text \<open>
  The operations of the two controllers on certificates, and a run that serves requests
  one after the other, each to its end, each under its own environment.
\<close>

datatype operation =
  Issue string issue_request
  | Revoke string string
  | VerifyById string
  | VerifyByHash string
  | VerifyByQR string
  | GetByApiCode string

definition perform :: "world \<Rightarrow> env \<Rightarrow> operation \<Rightarrow> response \<times> world" where
  "perform w e oper =
     (case oper of
        Issue issuerId req \<Rightarrow> issueCertificate w e issuerId req
      | Revoke i reason \<Rightarrow> revokeCertificate w e i reason
      | VerifyById i \<Rightarrow> verifyCertificateById w e i
      | VerifyByHash h \<Rightarrow> verifyCertificateByHash w e h
      | VerifyByQR q \<Rightarrow> verifyByQRCode w e q
      | GetByApiCode code \<Rightarrow> getCertificateByApiCode w e code)"

fun serve :: "world \<Rightarrow> (env \<times> operation) list \<Rightarrow> world" where
  "serve w [] = w"
| "serve w ((e, oper) # rest) = serve (snd (perform w e oper)) rest"

definition statusOf :: "world \<Rightarrow> string \<Rightarrow> cert_status option" where
  "statusOf w i = map_option status (findById (certs w) i)"

definition countOf :: "world \<Rightarrow> string \<Rightarrow> nat option" where
  "countOf w i = map_option verificationCount (findById (certs w) i)"


text \<open>The identifier index of the store is unique.\<close>

definition uniqueIds :: "world \<Rightarrow> bool" where
  "uniqueIds w = distinct (map cid (certs w))"

text \<open>
  A stored document \<open>evolves\<close> into a later one when the identifier is kept, a \<open>REVOKED\<close>
  status stays and the counter does not fall; a collection \<open>grows\<close> into a later one
  when its identifiers stay unique and every document evolves into the one stored under
  its identifier.
\<close>

definition evolves :: "certificate \<Rightarrow> certificate \<Rightarrow> bool" where
  "evolves c c' =
     (cid c' = cid c \<and> (status c = REVOKED \<longrightarrow> status c' = REVOKED) \<and>
      verificationCount c \<le> verificationCount c')"

definition grows :: "certificate list \<Rightarrow> certificate list \<Rightarrow> bool" where
  "grows st st' =
     (distinct (map cid st') \<and>
      (\<forall>i c. findById st i = Some c \<longrightarrow> (\<exists>c'. findById st' i = Some c' \<and> evolves c c')))"

definition isVerification :: "operation \<Rightarrow> bool" where
  "isVerification oper =
     (case oper of VerifyById i \<Rightarrow> True | VerifyByHash h \<Rightarrow> True | VerifyByQR q \<Rightarrow> True
      | Issue u req \<Rightarrow> False | Revoke i reason \<Rightarrow> False | GetByApiCode code \<Rightarrow> False)"

text \<open>
  Two requests for the same identifier whose steps interleave at the handler's \<open>await\<close>s:
  both load the document (and ask the ledger) before either runs
  \<open>recordVerification\<close>. Each then increments and saves the copy it loaded.
\<close>

definition verifyTwiceInterleaved :: "world \<Rightarrow> env \<Rightarrow> string
    \<Rightarrow> response \<times> response \<times> world" where
  "verifyTwiceInterleaved w e i =
     (case findById (certs w) i of
        None \<Rightarrow> (notFound ''Certificate not found'', notFound ''Certificate not found'', w)
      | Some a \<Rightarrow>
          (case findById (certs w) i of
             None \<Rightarrow> (notFound ''Certificate not found'', notFound ''Certificate not found'', w)
           | Some b \<Rightarrow>
               (case crossCheck w e a of
                  (bva, wa) \<Rightarrow>
                    (case crossCheck wa e b of
                       (bvb, wb) \<Rightarrow>
                         (case recordAndRespond wb e a bva ''Verification failed'' of
                            (ra, w1) \<Rightarrow>
                              (case recordAndRespond w1 e b bvb ''Verification failed'' of
                                 (rb, w2) \<Rightarrow> (ra, rb, w2)))))))"

text \<open>
  Issuance up to the mint: the steps of \<open>issueCertificate\<close> before the \<open>try\<close> block, when
  all of them pass, with the world, the college, the document the handler holds, the
  link and the QR image it goes on with.
\<close>

definition issuePrepared :: "world \<Rightarrow> env \<Rightarrow> string \<Rightarrow> issue_request
    \<Rightarrow> (world \<times> college_doc \<times> certificate \<times> string \<times> string) option" where
  "issuePrepared w e issuerId req =
     (if down e UserFind then None
      else (case map_of (users w) issuerId of
        None \<Rightarrow> None
      | Some issuer \<Rightarrow>
          (case user_college issuer of
             None \<Rightarrow> None
           | Some col \<Rightarrow>
               (let c = draftCertificate e issuerId col req in
                case save_new (down e SaveCreated) SaveCreated (certs w) c of
                  Inl err \<Rightarrow> None
                | Inr st1 \<Rightarrow>
                    (let link = verificationLinkOf e c in
                     case generateQRCode (clientUrl e) (qrRender e) link of
                       Inl err \<Rightarrow> None
                     | Inr qr \<Rightarrow>
                         (case save_existing (down e SaveLinked) SaveLinked False st1
                                 (withLink c link qr) of
                            Inl err \<Rightarrow> None
                          | Inr st2 \<Rightarrow>
                              Some (w\<lparr>certs := st2\<rparr>, col, withLink c link qr, link, qr)))))))"

record interleaved =
  revokeResponse :: response
  worldAfterRevoke :: world
  issueResponse :: response
  worldAfterIssue :: world

text \<open>
  A revocation of the new credential that is served while issuance awaits the mint: the
  issuance has saved the document and holds it; the revocation request \<open>e'\<close> runs to its
  end; then the \<open>try\<close> block of the issuance goes on with the document it holds.
\<close>

definition revokeWhileMinting :: "world \<Rightarrow> env \<Rightarrow> string \<Rightarrow> issue_request \<Rightarrow> env \<Rightarrow> string
    \<Rightarrow> interleaved option" where
  "revokeWhileMinting w e issuerId req e' reason =
     (case issuePrepared w e issuerId req of
        None \<Rightarrow> None
      | Some (w2, col, c, link, qr) \<Rightarrow>
          (case revokeCertificate w2 e' (cid c) reason of
             (rr, w3) \<Rightarrow>
               (case issueAnchor w3 e col c link qr of
                  (ri, w4) \<Rightarrow>
                    Some \<lparr>revokeResponse = rr, worldAfterRevoke = w3,
                          issueResponse = ri, worldAfterIssue = w4\<rparr>)))"

definition statusAt :: "string \<Rightarrow> world \<Rightarrow> cert_status option" where
  "statusAt i w = statusOf w i"

section \<open>Sample data\<close>

definition utcZone :: time_zone where
  "utcZone = \<lparr>tz_offset = (\<lambda>t. 0), tz_name = (\<lambda>t. ''Coordinated Universal Time'')\<rparr>"

definition istZone :: time_zone where
  "istZone = \<lparr>tz_offset = (\<lambda>t. 330), tz_name = (\<lambda>t. ''India Standard Time'')\<rparr>"

text \<open>
  A runtime for the samples of issuance, with a digest that is quick to compute (the
  length of the text) in the place of SHA-256.
\<close>

definition sampleRuntime :: js_runtime where
  "sampleRuntime =
     \<lparr>sha256 = (\<lambda>s. of_nat (length s)), numToString = (\<lambda>q. ''9''), timeZone = utcZone\<rparr>"

text \<open>The text of a Number that is a non-negative integer, as of 9 and of 2024.\<close>

definition integerText :: "rat \<Rightarrow> string" where
  "integerText q = toString10 (nat \<lfloor>q\<rfloor>)"

text \<open>The runtime with SHA-256 itself, in a given time zone.\<close>

definition nodeRuntime :: "time_zone \<Rightarrow> js_runtime" where
  "nodeRuntime tz = \<lparr>sha256 = sha256_fips, numToString = integerText, timeZone = tz\<rparr>"

definition sampleStudent :: student_data where
  "sampleStudent =
     \<lparr>name = ''Ada'', email = ''ada@example.org'', phone = None, studentId = ''S1'',
      dateOfBirth = None, address = None\<rparr>"

definition sampleAcademic :: academic_data where
  "sampleAcademic =
     \<lparr>degree = ''BSc'', specialization = None, duration = ''4 years'',
      admissionYear = 2020, graduationYear = 2024, overallCGPA = 9,
      overallPercentage = 90, classification = ''First Class'', semesters = [],
      technicalSkills = [], softSkills = [], certifications = [], projects = [],
      internships = [], achievements = [], thesis = None, attendance = None,
      disciplinaryRecord = \<lparr>clean = True, remarks = None\<rparr>\<rparr>"

definition sampleInput :: academic_input where
  "sampleInput =
     \<lparr>in_degree = ''BSc'', in_specialization = None, in_duration = ''4 years'',
      in_admissionYear = 2020, in_graduationYear = 2024, in_overallCGPA = 9,
      in_overallPercentage = 90, in_classification = ''First Class'',
      in_semesters = None, in_technicalSkills = None, in_softSkills = None,
      in_certifications = None, in_projects = None, in_internships = None,
      in_achievements = None, in_thesis = None, in_attendance = None,
      in_disciplinaryRecord = None\<rparr>"

definition sampleRequest :: issue_request where
  "sampleRequest = \<lparr>req_studentData = sampleStudent, req_academicData = sampleInput\<rparr>"

definition sampleId :: string where
  "sampleId = ''507f1f77bcf86cd799439011''"

text \<open>A stored credential: minted, never verified, without a token of the ledger.\<close>

definition sampleCert :: certificate where
  "sampleCert =
     \<lparr>cid = sampleId, tokenId = None, studentData = sampleStudent, college = ''c1'',
      academicData = sampleAcademic, apiCode = ''CERT-2024-A-B'',
      blockchain = \<lparr>certificateHash = ''h1'', transactionHash = None, blockNumber = None\<rparr>,
      metadata = \<lparr>qrCode = None, verificationLink = None, revocationReason = None\<rparr>,
      status = MINTED, issuedBy = ''u1'', issuedAt = 5, verificationCount = 0,
      lastVerified = None\<rparr>"

definition sampleCollege :: college_doc where
  "sampleCollege = \<lparr>col_id = ''c1'', col_code = ''MIT'', col_walletAddress = Some ''0xabc''\<rparr>"

definition worldWith :: "certificate \<Rightarrow> world" where
  "worldWith c =
     \<lparr>certs = [c], users = [(''u1'', \<lparr>user_college = Some sampleCollege\<rparr>)],
      ledgerCalls = []\<rparr>"

text \<open>A deployed contract that cannot be reached: every call throws.\<close>

definition brokenContract :: contract where
  "brokenContract =
     \<lparr>k_mintCertificate = (\<lambda>a. Inl ''timeout''),
      k_verifyCertificate = (\<lambda>t. Inl ''timeout''),
      k_verifyCertificateByHash = (\<lambda>h. Inl ''timeout''),
      k_revokeCertificate = (\<lambda>t. Inl ''timeout'')\<rparr>"

text \<open>An environment in mock mode (no contract), with a working store and renderer.\<close>

definition sampleEnv :: env where
  "sampleEnv =
     \<lparr>runtime = sampleRuntime, contract = None,
      mockRandom = \<lparr>rnd_token = 1 / 2, rnd_tx16 = ''0.8f3a'', rnd_block = 1 / 4\<rparr>,
      now = 1000, failing = [], newId = ''507f1f77bcf86cd799439012'', year = 2026,
      random36 = ''0.abcdefgh'', clientUrl = None,
      qrRender = (\<lambda>u. Inr (''data:image/png;'' @ u))\<rparr>"

definition liveBrokenEnv :: env where
  "liveBrokenEnv = sampleEnv\<lparr>contract := Some brokenContract\<rparr>"

text \<open>A deployed contract that answers: the mint returns token 41.\<close>

definition workingContract :: contract where
  "workingContract =
     \<lparr>k_mintCertificate =
        (\<lambda>a. Inr \<lparr>mr_tokenId = Some 41, mr_transactionHash = ''0xfeed'',
                   mr_blockNumber = 12, mr_gasUsed = ''21000''\<rparr>),
      k_verifyCertificate = (\<lambda>t. Inl ''timeout''),
      k_verifyCertificateByHash = (\<lambda>h. Inl ''timeout''),
      k_revokeCertificate =
        (\<lambda>t. Inr \<lparr>rr_transactionHash = ''0xbeef'', rr_blockNumber = 13\<rparr>)\<rparr>"

definition liveWorkingEnv :: env where
  "liveWorkingEnv = sampleEnv\<lparr>contract := Some workingContract\<rparr>"

text \<open>Variants of the stored credential and the link issuance gives it.\<close>

definition clashingCert :: certificate where
  "clashingCert = sampleCert\<lparr>apiCode := ''CERT-2026-RS-ABCDEF''\<rparr>"


definition zeroTokenCert :: certificate where
  "zeroTokenCert = sampleCert\<lparr>tokenId := Some 0\<rparr>"

definition observedCert :: certificate where
  "observedCert = sampleCert\<lparr>status := VERIFIED\<rparr>"

definition sampleLink :: string where
  "sampleLink = ''http://localhost:3000/verify/507f1f77bcf86cd799439011''"


section \<open>Facts about the store\<close>

lemma find_map_replace:
  "list_ex (\<lambda>d. cid d = cid c) st \<Longrightarrow>
   find (\<lambda>d. cid d = cid c) (map (\<lambda>d. if cid d = cid c then c else d) st) = Some c"
  by (induction st) auto

lemma find_map_other:
  "i \<noteq> cid c \<Longrightarrow>
   find (\<lambda>d. cid d = i) (map (\<lambda>d. if cid d = cid c then c else d) st)
     = find (\<lambda>d. cid d = i) st"
  by (induction st) auto

lemma find_append_new:
  "\<not> list_ex (\<lambda>d. cid d = cid c) st \<Longrightarrow> find (\<lambda>d. cid d = cid c) (st @ [c]) = Some c"
  by (induction st) auto

lemma find_append_other:
  "i \<noteq> cid c \<Longrightarrow> find (\<lambda>d. cid d = i) (st @ [c]) = find (\<lambda>d. cid d = i) st"
  by (induction st) auto

lemma find_Some_ex: "find P xs = Some x \<Longrightarrow> list_ex P xs"
  by (induction xs) (auto split: if_splits)

lemma find_Some_mem: "find P xs = Some x \<Longrightarrow> x \<in> set xs \<and> P x"
  by (induction xs) (auto split: if_splits)

lemma save_existing_found:
  "save_existing f s tm st c = Inr st' \<Longrightarrow> findById st' (cid c) = Some c"
  by (auto simp: save_existing_def findById_def find_map_replace split: if_splits)

lemma save_existing_other:
  "save_existing f s tm st c = Inr st' \<Longrightarrow> i \<noteq> cid c \<Longrightarrow> findById st' i = findById st i"
  by (auto simp: save_existing_def findById_def find_map_other split: if_splits)

lemma save_existing_ids:
  "save_existing f s tm st c = Inr st' \<Longrightarrow> map cid st' = map cid st"
  by (auto simp: save_existing_def split: if_splits)

lemma save_new_fresh:
  assumes "save_new f s st c = Inr st'"
  shows "st' = st @ [c]" and "\<not> list_ex (\<lambda>d. cid d = cid c) st"
proof -
  from assms show "st' = st @ [c]"
    by (auto simp: save_new_def split: if_splits)
  from assms have "\<not> keyTaken st c"
    by (auto simp: save_new_def split: if_splits)
  then show "\<not> list_ex (\<lambda>d. cid d = cid c) st"
    by (auto simp: keyTaken_def list_ex_iff)
qed

lemma save_new_found:
  assumes "save_new f s st c = Inr st'"
  shows "findById st' (cid c) = Some c"
  using save_new_fresh [OF assms] by (simp add: findById_def find_append_new)

lemma save_new_other:
  "save_new f s st c = Inr st' \<Longrightarrow> i \<noteq> cid c \<Longrightarrow> findById st' i = findById st i"
  by (auto simp: save_new_def findById_def find_append_other split: if_splits)

lemma save_new_not_stored:
  assumes "save_new f s st c = Inr st'"
  shows "findById st (cid c) = None"
proof -
  from save_new_fresh(2) [OF assms] have "\<forall>d\<in>set st. cid d \<noteq> cid c"
    by (simp add: list_ex_iff)
  then show ?thesis
    by (simp add: findById_def find_None_iff)
qed

lemma save_existing_ok:
  assumes "\<not> f" and "tm \<longrightarrow> tokenId c = None" and "findById st (cid c) = Some d"
  shows "save_existing f s tm st c = Inr (map (\<lambda>x. if cid x = cid c then c else x) st)"
proof -
  from assms(3) have "list_ex (\<lambda>x. cid x = cid c) st"
    unfolding findById_def by (rule find_Some_ex)
  with assms(1,2) show ?thesis
    by (auto simp: save_existing_def tokenTaken_def)
qed

section \<open>Fingerprint\<close>




lemma integerText_samples: "integerText 9 = ''9''" "integerText 2024 = ''2024''"
  by (simp_all add: integerText_def toString10.simps digit36_def)

lemma sample_date_utc:
  "dateToString utcZone 5 = ''Thu Jan 01 1970 00:00:00 GMT+0000 (Coordinated Universal Time)''"
  by code_simp

lemma sample_date_ist:
  "dateToString istZone 5 = ''Thu Jan 01 1970 05:30:00 GMT+0530 (India Standard Time)''"
  by code_simp

lemma sample_hashData_utc:
  "hashData (nodeRuntime utcZone) sampleCert
     = ''Ada-BSc-9-2024-Thu Jan 01 1970 00:00:00 GMT+0000 (Coordinated Universal Time)''"
  by (simp add: hashData_def nodeRuntime_def sampleCert_def sampleStudent_def
      sampleAcademic_def integerText_samples sample_date_utc)

lemma sample_hashData_ist:
  "hashData (nodeRuntime istZone) sampleCert
     = ''Ada-BSc-9-2024-Thu Jan 01 1970 05:30:00 GMT+0530 (India Standard Time)''"
  by (simp add: hashData_def nodeRuntime_def sampleCert_def sampleStudent_def
      sampleAcademic_def integerText_samples sample_date_ist)

lemma sample_digest_utc:
  "digestHex (sha256_fips
     ''Ada-BSc-9-2024-Thu Jan 01 1970 00:00:00 GMT+0000 (Coordinated Universal Time)'')
     = ''f196299c2800ee98a87b0ae46858b71a736ae54cb359c24a01910238cecb6f4c''"
  by code_simp

lemma sample_digest_ist:
  "digestHex (sha256_fips
     ''Ada-BSc-9-2024-Thu Jan 01 1970 05:30:00 GMT+0530 (India Standard Time)'')
     = ''3e96dc325a762c99b067274f612ec27690c966cde200e089f5c04de73b9e8108''"
  by code_simp

text \<open>
  C6 as stated fails: the same document (one payload, one issuance timestamp) is
  fingerprinted in a process whose time zone is UTC and in one whose time zone is India
  Standard Time. The hashed text ends with the local-time text of the timestamp, so the
  two texts differ, and so do the two SHA-256 digests.
\<close>

theorem fingerprint_reads_time_zone_counterexample:
  "hashData (nodeRuntime utcZone) sampleCert
     = ''Ada-BSc-9-2024-Thu Jan 01 1970 00:00:00 GMT+0000 (Coordinated Universal Time)'' \<and>
   hashData (nodeRuntime istZone) sampleCert
     = ''Ada-BSc-9-2024-Thu Jan 01 1970 05:30:00 GMT+0530 (India Standard Time)'' \<and>
   generateHash (nodeRuntime utcZone) sampleCert
     = ''f196299c2800ee98a87b0ae46858b71a736ae54cb359c24a01910238cecb6f4c'' \<and>
   generateHash (nodeRuntime istZone) sampleCert
     = ''3e96dc325a762c99b067274f612ec27690c966cde200e089f5c04de73b9e8108'' \<and>
   generateHash (nodeRuntime utcZone) sampleCert \<noteq> generateHash (nodeRuntime istZone) sampleCert"
proof -
  have utc: "generateHash (nodeRuntime utcZone) sampleCert
      = ''f196299c2800ee98a87b0ae46858b71a736ae54cb359c24a01910238cecb6f4c''"
    unfolding generateHash_def sample_hashData_utc
    by (simp add: nodeRuntime_def sample_digest_utc)
  have ist: "generateHash (nodeRuntime istZone) sampleCert
      = ''3e96dc325a762c99b067274f612ec27690c966cde200e089f5c04de73b9e8108''"
    unfolding generateHash_def sample_hashData_ist
    by (simp add: nodeRuntime_def sample_digest_ist)
  show ?thesis
    unfolding utc ist by (simp add: sample_hashData_utc sample_hashData_ist)
qed



section \<open>Issuance when the anchor fails\<close>

lemma draft_fields:
  "cid (draftCertificate e issuerId col req) = newId e"
  "tokenId (draftCertificate e issuerId col req) = None"
  "status (draftCertificate e issuerId col req) = PENDING"
  "transactionHash (blockchain (draftCertificate e issuerId col req)) = None"
  "blockNumber (blockchain (draftCertificate e issuerId col req)) = None"
  by (simp_all add: draftCertificate_def newCertificate_def Let_def)

lemma issuePending_calls:
  "issuePending w e tm c link qr = (r, w') \<Longrightarrow> ledgerCalls w' = ledgerCalls w"
  by (auto simp: issuePending_def Let_def split: sum.splits)

lemma issuePending_ok:
  assumes run: "issuePending w e False c link qr = (r, w')"
    and up: "\<not> down e SavePending"
    and stored: "findById (certs w) (cid c) = Some d"
  shows "httpStatus r = 201 \<and> success r \<and>
         warning r = Some ''Blockchain minting failed, will retry automatically'' \<and>
         dataCertificate r = Some (c\<lparr>status := PENDING\<rparr>) \<and>
         dataStudentAccess r = Some (accessOf c link qr) \<and>
         findById (certs w') (cid c) = Some (c\<lparr>status := PENDING\<rparr>)"
proof -
  let ?cp = "c\<lparr>status := PENDING\<rparr>"
  let ?st = "map (\<lambda>x. if cid x = cid ?cp then ?cp else x) (certs w)"
  have ok: "save_existing (down e SavePending) SavePending False (certs w) ?cp = Inr ?st"
    using up stored by (intro save_existing_ok [where d = d]) simp_all
  have found: "findById ?st (cid ?cp) = Some ?cp"
    using ok by (rule save_existing_found)
  from run ok found show ?thesis
    by (auto simp: issuePending_def Let_def reply_def accessOf_def)
qed

lemma issueAnchor_failed:
  assumes run: "issueAnchor w e col c link qr = (r, w')"
    and log: "ledgerCalls w' = ledgerCalls w @ [MintCall wa h False]"
    and up: "\<not> down e SavePending"
    and stored: "findById (certs w) (cid c) = Some d"
  shows "httpStatus r = 201 \<and> success r \<and>
         warning r = Some ''Blockchain minting failed, will retry automatically'' \<and>
         dataCertificate r = Some (c\<lparr>status := PENDING\<rparr>) \<and>
         dataStudentAccess r = Some (accessOf c link qr) \<and>
         findById (certs w') (cid c) = Some (c\<lparr>status := PENDING\<rparr>)"
proof (cases "bc_mintCertificate (contract e) (mockRandom e) (col_walletAddress col)
                (academicData c) (certificateHash (blockchain c))")
  case (Inl err)
  let ?w1 = "w\<lparr>ledgerCalls := ledgerCalls w @
      [MintCall (col_walletAddress col) (certificateHash (blockchain c)) False]\<rparr>"
  from run Inl have p: "issuePending ?w1 e False c link qr = (r, w')"
    by (simp add: issueAnchor_def Let_def)
  have s: "findById (certs ?w1) (cid c) = Some d"
    using stored by simp
  show ?thesis
    by (rule issuePending_ok [OF p up s])
next
  case (Inr m)
  with run have "ledgerCalls w' = ledgerCalls w @
      [MintCall (col_walletAddress col) (certificateHash (blockchain c)) True]"
    by (auto simp: issueAnchor_def Let_def split: sum.splits if_splits
        dest!: issuePending_calls)
  with log show ?thesis by simp
qed

text \<open>
  C2. An issuance that reached the anchor call and saw it throw (the trace of ledger
  calls grew by a failed mint), and whose save of the pending state is accepted by the
  store, answers 201 with \<open>success\<close>, the warning, the access code, the verification link
  and the QR image; the stored document is \<open>PENDING\<close> with no token, no transaction
  reference and no block reference.
\<close>

theorem issue_anchor_failure_still_succeeds:
  assumes run: "issueCertificate w e issuerId req = (r, w')"
    and log: "ledgerCalls w' = ledgerCalls w @ [MintCall wa h False]"
    and up: "\<not> down e SavePending"
  shows "httpStatus r = 201 \<and> success r \<and>
         warning r = Some ''Blockchain minting failed, will retry automatically'' \<and>
         (\<exists>c link qr.
            findById (certs w') (newId e) = Some c \<and> dataCertificate r = Some c \<and>
            status c = PENDING \<and> tokenId c = None \<and>
            transactionHash (blockchain c) = None \<and> blockNumber (blockchain c) = None \<and>
            dataStudentAccess r =
              Some \<lparr>sa_apiCode = apiCode c, sa_verificationLink = link, sa_qrCode = qr\<rparr> \<and>
            link = baseUrlOf (clientUrl e) @ ''/verify/'' @ newId e \<and>
            verificationLink (metadata c) = Some link \<and> qrCode (metadata c) = Some qr)"
proof -
  from run log obtain col st1 qr st2 where
    linked: "save_existing (down e SaveLinked) SaveLinked False st1
        (withLink (draftCertificate e issuerId col req)
           (verificationLinkOf e (draftCertificate e issuerId col req)) qr) = Inr st2"
    and anchor: "issueAnchor (w\<lparr>certs := st2\<rparr>) e col
        (withLink (draftCertificate e issuerId col req)
           (verificationLinkOf e (draftCertificate e issuerId col req)) qr)
        (verificationLinkOf e (draftCertificate e issuerId col req)) qr = (r, w')"
    by (auto simp: issueCertificate_def Let_def split: if_splits option.splits sum.splits)
  let ?c = "draftCertificate e issuerId col req"
  let ?link = "verificationLinkOf e ?c"
  let ?c3 = "withLink ?c ?link qr"
  have id3: "cid ?c3 = newId e"
    by (simp add: withLink_def draft_fields)
  from linked have "findById st2 (cid ?c3) = Some ?c3"
    by (rule save_existing_found)
  then have stored: "findById (certs (w\<lparr>certs := st2\<rparr>)) (cid ?c3) = Some ?c3"
    by simp
  from log have log': "ledgerCalls w' = ledgerCalls (w\<lparr>certs := st2\<rparr>) @ [MintCall wa h False]"
    by simp
  note res = issueAnchor_failed [OF anchor log' up stored]
  let ?cp = "?c3\<lparr>status := PENDING\<rparr>"
  have "findById (certs w') (newId e) = Some ?cp \<and> dataCertificate r = Some ?cp \<and>
        status ?cp = PENDING \<and> tokenId ?cp = None \<and>
        transactionHash (blockchain ?cp) = None \<and> blockNumber (blockchain ?cp) = None \<and>
        dataStudentAccess r =
          Some \<lparr>sa_apiCode = apiCode ?cp, sa_verificationLink = ?link, sa_qrCode = qr\<rparr> \<and>
        ?link = baseUrlOf (clientUrl e) @ ''/verify/'' @ newId e \<and>
        verificationLink (metadata ?cp) = Some ?link \<and> qrCode (metadata ?cp) = Some qr"
    using res id3 by (simp add: withLink_def draft_fields accessOf_def verificationLinkOf_def)
  then have "\<exists>c link qr.
            findById (certs w') (newId e) = Some c \<and> dataCertificate r = Some c \<and>
            status c = PENDING \<and> tokenId c = None \<and>
            transactionHash (blockchain c) = None \<and> blockNumber (blockchain c) = None \<and>
            dataStudentAccess r =
              Some \<lparr>sa_apiCode = apiCode c, sa_verificationLink = link, sa_qrCode = qr\<rparr> \<and>
            link = baseUrlOf (clientUrl e) @ ''/verify/'' @ newId e \<and>
            verificationLink (metadata c) = Some link \<and> qrCode (metadata c) = Some qr"
    by blast
  with res show ?thesis by simp
qed

theorem issue_anchor_failure_still_succeeds_witness:
  "ledgerCalls (snd (issueCertificate (worldWith sampleCert) liveBrokenEnv ''u1'' sampleRequest))
     = ledgerCalls (worldWith sampleCert) @
       [MintCall (Some ''0xabc'')
          ''000000000000000000000000000000000000000000000000000000000000004a'' False] \<and>
   \<not> down liveBrokenEnv SavePending \<and>
   httpStatus (fst (issueCertificate (worldWith sampleCert) liveBrokenEnv ''u1'' sampleRequest)) = 201 \<and>
   success (fst (issueCertificate (worldWith sampleCert) liveBrokenEnv ''u1'' sampleRequest)) \<and>
   warning (fst (issueCertificate (worldWith sampleCert) liveBrokenEnv ''u1'' sampleRequest))
     = Some ''Blockchain minting failed, will retry automatically'' \<and>
   statusOf (snd (issueCertificate (worldWith sampleCert) liveBrokenEnv ''u1'' sampleRequest))
     (newId liveBrokenEnv) = Some PENDING"
proof -
  let ?run = "issueCertificate (worldWith sampleCert) liveBrokenEnv ''u1'' sampleRequest"
  have h1: "?run = (fst ?run, snd ?run)"
    by simp
  have h2: "ledgerCalls (snd ?run) = ledgerCalls (worldWith sampleCert) @
       [MintCall (Some ''0xabc'')
          ''000000000000000000000000000000000000000000000000000000000000004a'' False]"
    by code_simp
  have h3: "\<not> down liveBrokenEnv SavePending"
    by code_simp
  from issue_anchor_failure_still_succeeds [OF h1 h2 h3] h2 h3 show ?thesis
    by (auto simp: statusOf_def)
qed

section \<open>Lookup by access code\<close>

text \<open>
  C10. The lookup by access code answers with success exactly when the code is found
  and the store serves the lookup and the save; then the stored document has its counter
  raised by one and its last-verified time set to the clock, the response carries that
  document and no validity flag, and the ledger is not asked.
\<close>

theorem access_code_lookup_counts:
  assumes run: "getCertificateByApiCode w e code = (r, w')"
  shows "(success r \<longleftrightarrow>
            (\<exists>c. findByApiCode (certs w) code = Some c) \<and>
            \<not> down e CertFindByApiCode \<and> \<not> down e SaveVerification) \<and>
         (success r \<longrightarrow>
            (\<exists>c. findByApiCode (certs w) code = Some c \<and>
                 findById (certs w') (cid c) =
                   Some (c\<lparr>verificationCount := verificationCount c + 1,
                            lastVerified := Some (now e)\<rparr>) \<and>
                 dataCertificate r =
                   Some (c\<lparr>verificationCount := verificationCount c + 1,
                            lastVerified := Some (now e)\<rparr>) \<and>
                 isValid r = None \<and> ledgerCalls w' = ledgerCalls w))"
proof (cases "findByApiCode (certs w) code")
  case None
  with run show ?thesis
    by (auto simp: getCertificateByApiCode_def reply_def failed_def split: if_splits)
next
  case (Some c)
  let ?c' = "recordVerification_doc (now e) c"
  from Some have "c \<in> set (certs w)"
    unfolding findByApiCode_def by (auto dest: find_Some_mem)
  then have "findById (certs w) (cid c) \<noteq> None"
    by (auto simp: findById_def find_None_iff)
  then obtain d where d: "findById (certs w) (cid ?c') = Some d"
    by (auto simp: recordVerification_doc_def)
  show ?thesis
  proof (cases "down e CertFindByApiCode \<or> down e SaveVerification")
    case True
    with run Some show ?thesis
      by (auto simp: getCertificateByApiCode_def Let_def reply_def failed_def
          save_existing_def split: if_splits)
  next
    case False
    then have up: "\<not> down e SaveVerification" and up': "\<not> down e CertFindByApiCode"
      by simp_all
    let ?st = "map (\<lambda>x. if cid x = cid ?c' then ?c' else x) (certs w)"
    have ok: "save_existing (down e SaveVerification) SaveVerification False (certs w) ?c'
        = Inr ?st"
      using up d by (intro save_existing_ok [where d = d]) simp_all
    have found: "findById ?st (cid ?c') = Some ?c'"
      using ok by (rule save_existing_found)
    from run Some up' ok have r: "r = (reply 200 True None)\<lparr>dataCertificate := Some ?c'\<rparr>"
      and w': "w' = w\<lparr>certs := ?st\<rparr>"
      by (simp_all add: getCertificateByApiCode_def Let_def)
    from found have "findById (certs w') (cid c) = Some ?c'"
      by (simp add: w' recordVerification_doc_def)
    with Some up up' show ?thesis
      by (simp add: r w' reply_def recordVerification_doc_def)
  qed
qed

theorem access_code_lookup_counts_witness:
  "success (fst (getCertificateByApiCode (worldWith sampleCert) sampleEnv ''CERT-2024-A-B'')) \<and>
   countOf (worldWith sampleCert) sampleId = Some 0 \<and>
   countOf (snd (getCertificateByApiCode (worldWith sampleCert) sampleEnv ''CERT-2024-A-B''))
     sampleId = Some 1 \<and>
   isValid (fst (getCertificateByApiCode (worldWith sampleCert) sampleEnv ''CERT-2024-A-B''))
     = None"
proof -
  let ?run = "getCertificateByApiCode (worldWith sampleCert) sampleEnv ''CERT-2024-A-B''"
  have h: "?run = (fst ?run, snd ?run)"
    by simp
  have f: "findByApiCode (certs (worldWith sampleCert)) ''CERT-2024-A-B'' = Some sampleCert"
    by code_simp
  have u: "\<not> down sampleEnv CertFindByApiCode" "\<not> down sampleEnv SaveVerification"
    by code_simp+
  have i: "cid sampleCert = sampleId" "verificationCount sampleCert = 0"
    by (simp_all add: sampleCert_def)
  have b: "countOf (worldWith sampleCert) sampleId = Some 0"
    by code_simp
  from access_code_lookup_counts [OF h] f u i b show ?thesis
    by (auto simp: countOf_def)
qed

section \<open>Issuance and uniqueness conflicts\<close>

text \<open>
  C5 as stated fails: the store already holds the access code that this issuance
  generates, and the one conflict is answered with the 500 response and a duplicate key,
  while with another random draw no key of the new document would have been taken.
\<close>

theorem issue_single_conflict_counterexample:
  "generateApiCode (now sampleEnv) (year sampleEnv) (random36 sampleEnv) sampleCert
     = apiCode clashingCert \<and>
   issueCertificate (worldWith clashingCert) sampleEnv ''u1'' sampleRequest
     = (failed ''Certificate issuance failed'' DuplicateKey, worldWith clashingCert) \<and>
   \<not> keyTaken (certs (worldWith clashingCert))
     (draftCertificate (sampleEnv\<lparr>random36 := ''0.zyxwvu''\<rparr>) ''u1'' sampleCollege
        sampleRequest)"
  by code_simp

text \<open>
  C5, amended. Fingerprint and access code are generated once and the document is saved
  once: when a key of the new document is already taken, issuance answers at once with
  the 500 response carrying the duplicate key, and the world is as before.
\<close>

theorem issue_duplicate_is_fatal:
  assumes "map_of (users w) issuerId = Some u"
    and "user_college u = Some col"
    and "\<not> down e UserFind" and "\<not> down e SaveCreated"
    and "keyTaken (certs w) (draftCertificate e issuerId col req)"
  shows "issueCertificate w e issuerId req
           = (failed ''Certificate issuance failed'' DuplicateKey, w)"
  using assms by (simp add: issueCertificate_def save_new_def)

theorem issue_duplicate_is_fatal_witness:
  "keyTaken (certs (worldWith clashingCert))
     (draftCertificate sampleEnv ''u1'' sampleCollege sampleRequest) \<and>
   issueCertificate (worldWith clashingCert) sampleEnv ''u1'' sampleRequest
     = (failed ''Certificate issuance failed'' DuplicateKey, worldWith clashingCert)"
proof -
  have a: "map_of (users (worldWith clashingCert)) ''u1''
      = Some \<lparr>user_college = Some sampleCollege\<rparr>"
    by (simp add: worldWith_def)
  have b: "user_college \<lparr>user_college = Some sampleCollege\<rparr> = Some sampleCollege"
    by simp
  have c: "\<not> down sampleEnv UserFind" "\<not> down sampleEnv SaveCreated"
    by code_simp+
  have d: "keyTaken (certs (worldWith clashingCert))
     (draftCertificate sampleEnv ''u1'' sampleCollege sampleRequest)"
    by code_simp
  from issue_duplicate_is_fatal [OF a b c d] d show ?thesis
    by simp
qed

section \<open>Revocation and the ledger\<close>






section \<open>The ledger client in mock mode\<close>

text \<open>
  C9 as stated fails: without a contract, the ledger's revoke and its lookup by
  fingerprint throw.
\<close>

theorem mock_mode_counterexample:
  "bc_revokeCertificate None 7 = Inl (Error ''Revocation failed: Contract not initialized'') \<and>
   bc_verifyCertificateByHash None ''h1''
     = Inl (Error ''Hash verification failed: Contract not initialized'')"
  by (simp add: bc_revokeCertificate_def bc_verifyCertificateByHash_def)

text \<open>
  C9, amended. Without a contract, the mint returns generated identifiers (a token below
  10000 for a draw in \<open>[0, 1)\<close>, a transaction hash that starts with \<open>0x\<close>) and the
  verification by token returns a placeholder that reports valid; the verification by
  fingerprint and the revocation throw \<open>Contract not initialized\<close>.
\<close>

theorem mock_mode_operations:
  assumes "0 \<le> rnd_token g" and "rnd_token g < 1"
  shows "(\<exists>m t. bc_mintCertificate None g wallet payload h = Inr m \<and>
                mr_tokenId m = Some t \<and> t < 10000 \<and>
                take 2 (mr_transactionHash m) = ''0x'') \<and>
         (\<exists>v. bc_verifyCertificate None nowMs tok = Inr v \<and> cv_isValid v) \<and>
         bc_verifyCertificateByHash None h
           = Inl (Error ''Hash verification failed: Contract not initialized'') \<and>
         bc_revokeCertificate None tok
           = Inl (Error ''Revocation failed: Contract not initialized'')"
proof -
  from assms have "rnd_token g * 10000 < 10000"
    by simp
  then have "\<lfloor>rnd_token g * 10000\<rfloor> < 10000"
    by (simp add: floor_less_iff)
  then have "nat \<lfloor>rnd_token g * 10000\<rfloor> < 10000"
    by linarith
  then show ?thesis
    by (simp add: bc_mintCertificate_def bc_verifyCertificate_def
        bc_verifyCertificateByHash_def bc_revokeCertificate_def)
qed

theorem mock_mode_operations_witness:
  "(0::rat) \<le> rnd_token (mockRandom sampleEnv) \<and> rnd_token (mockRandom sampleEnv) < 1 \<and>
   (\<exists>m t. bc_mintCertificate None (mockRandom sampleEnv) (Some ''0xabc'') sampleAcademic ''h1''
             = Inr m \<and> mr_tokenId m = Some t \<and> t < 10000) \<and>
   bc_revokeCertificate None 7 = Inl (Error ''Revocation failed: Contract not initialized'')"
proof -
  have a: "(0::rat) \<le> rnd_token (mockRandom sampleEnv)"
    and b: "rnd_token (mockRandom sampleEnv) < 1"
    by (simp_all add: sampleEnv_def)
  from mock_mode_operations [OF a b, of "Some ''0xabc''" sampleAcademic "''h1''" 0 7] a b
  show ?thesis
    by blast
qed

section \<open>The validity flag\<close>

text \<open>
  What the three handlers compute: on a 200 response the flag is \<open>verdict\<close> of the found
  document and the ledger signal of the response, so it is false for every status but
  \<open>MINTED\<close>.
\<close>

lemma recordAndRespond_flag:
  assumes "recordAndRespond w e c bv msg = (r, w')" and "httpStatus r = 200"
  shows "isValid r = Some (status c = MINTED \<and>
           (case bv of None \<Rightarrow> True | Some sg \<Rightarrow> signalValid sg))"
  using assms
  by (auto simp: recordAndRespond_def Let_def verdict_def recordVerification_doc_def
      reply_def failed_def split: sum.splits)

lemma verdict_not_minted: "status c \<noteq> MINTED \<Longrightarrow> \<not> verdict c bv"
  by (simp add: verdict_def)

text \<open>
  C1 at a credential whose status is \<open>VERIFIED\<close>, with no token and no ledger signal: the
  schema's own \<open>isValid\<close> holds for it, and each of the three handlers answers 200 with
  the flag false.
\<close>

theorem verified_status_reported_invalid:
  "isValid_virtual observedCert \<and>
   httpStatus (fst (verifyCertificateById (worldWith observedCert) sampleEnv sampleId)) = 200 \<and>
   dataLedger (fst (verifyCertificateById (worldWith observedCert) sampleEnv sampleId)) = None \<and>
   isValid (fst (verifyCertificateById (worldWith observedCert) sampleEnv sampleId))
     = Some False \<and>
   isValid (fst (verifyCertificateByHash (worldWith observedCert) sampleEnv ''h1''))
     = Some False \<and>
   isValid (fst (verifyByQRCode (worldWith observedCert) sampleEnv sampleId)) = Some False"
  by code_simp

section \<open>Verification by QR payload\<close>

lemma verifyByQRCode_unrecognised:
  assumes "\<not> isHex24 q" and "findByHash (certs w) q = None" and "\<not> down e CertFindByHash"
  shows "verifyByQRCode w e q = (notFound ''Invalid QR code or certificate not found'', w)"
  using assms by (simp add: verifyByQRCode_def)

text \<open>
  C8 at the verification link that issuance produces for the stored sample credential:
  the QR service's decoder reads the identifier out of it, and the handler, which does
  not call the decoder, answers 404 and records nothing.
\<close>

theorem qr_link_payload_not_resolved:
  "verificationLinkOf sampleEnv sampleCert = sampleLink \<and>
   validateQRData sampleLink
     = \<lparr>qv_type = CertificateId, qv_value = sampleId, qv_isValid = True\<rparr> \<and>
   findById (certs (worldWith sampleCert)) sampleId = Some sampleCert \<and>
   verifyByQRCode (worldWith sampleCert) sampleEnv sampleLink
     = (notFound ''Invalid QR code or certificate not found'', worldWith sampleCert)"
  by code_simp

section \<open>How the collection changes from request to request\<close>

lemma evolves_refl: "evolves c c"
  by (simp add: evolves_def)

lemma evolves_trans: "evolves a b \<Longrightarrow> evolves b c \<Longrightarrow> evolves a c"
  by (auto simp: evolves_def)

lemma grows_refl: "distinct (map cid st) \<Longrightarrow> grows st st"
  by (auto simp: grows_def evolves_refl)

lemma grows_trans: "grows a b \<Longrightarrow> grows b c \<Longrightarrow> grows a c"
  unfolding grows_def by (meson evolves_trans)

lemma findById_mem: "findById st i = Some c \<Longrightarrow> c \<in> set st \<and> cid c = i"
  unfolding findById_def by (auto dest: find_Some_mem)

lemma distinct_same_id:
  assumes "distinct (map cid st)" and "x \<in> set st" and "y \<in> set st" and "cid x = cid y"
  shows "x = y"
  using assms by (meson distinct_map inj_on_def)

lemma mem_findById:
  assumes "distinct (map cid st)" and "d \<in> set st"
  shows "findById st (cid d) = Some d"
proof -
  from assms(2) have "findById st (cid d) \<noteq> None"
    by (auto simp: findById_def find_None_iff)
  then obtain x where x: "findById st (cid d) = Some x"
    by auto
  with findById_mem have "x \<in> set st" and "cid x = cid d"
    by blast+
  with assms have "x = d"
    by (meson distinct_same_id)
  with x show ?thesis by simp
qed

lemma grows_save_existing:
  assumes uniq: "distinct (map cid st)" and mem: "d \<in> set st" and ev: "evolves d d'"
    and save: "save_existing f s tm st d' = Inr st'"
  shows "grows st st'"
  unfolding grows_def
proof (intro conjI allI impI)
  show "distinct (map cid st')"
    using save_existing_ids [OF save] uniq by simp
next
  fix i c
  assume found: "findById st i = Some c"
  show "\<exists>c'. findById st' i = Some c' \<and> evolves c c'"
  proof (cases "i = cid d'")
    case True
    from ev have same: "cid d' = cid d"
      by (simp add: evolves_def)
    from findById_mem [OF found] True same have "c \<in> set st" and "cid c = cid d"
      by simp_all
    with uniq mem have "c = d"
      by (meson distinct_same_id)
    moreover have "findById st' i = Some d'"
      using save_existing_found [OF save] True by simp
    ultimately show ?thesis
      using ev by blast
  next
    case False
    with save_existing_other [OF save] found have "findById st' i = Some c"
      by simp
    then show ?thesis
      using evolves_refl by blast
  qed
qed

lemma grows_save_new:
  assumes uniq: "distinct (map cid st)" and save: "save_new f s st c = Inr st'"
  shows "grows st st'"
  unfolding grows_def
proof (intro conjI allI impI)
  from save_new_fresh [OF save] have st': "st' = st @ [c]"
    and fresh: "\<not> list_ex (\<lambda>d. cid d = cid c) st"
    by simp_all
  from fresh have "cid c \<notin> cid ` set st"
    by (auto simp: list_ex_iff)
  with uniq show "distinct (map cid st')"
    by (simp add: st')
next
  fix i x
  assume found: "findById st i = Some x"
  with save_new_not_stored [OF save] have "i \<noteq> cid c"
    by auto
  with save_new_other [OF save] found have "findById st' i = Some x"
    by simp
  then show "\<exists>c'. findById st' i = Some c' \<and> evolves x c'"
    using evolves_refl by blast
qed

lemma crossCheck_certs: "crossCheck w e c = (bv, w1) \<Longrightarrow> certs w1 = certs w"
  by (auto simp: crossCheck_def split: option.splits if_splits sum.splits)

lemma recordAndRespond_grows:
  assumes uniq: "distinct (map cid (certs w))" and mem: "c \<in> set (certs w)"
    and run: "recordAndRespond w e c bv msg = (r, w')"
  shows "grows (certs w) (certs w')"
proof (cases "save_existing (down e SaveVerification) SaveVerification False (certs w)
                (recordVerification_doc (now e) c)")
  case (Inl err)
  with run have "certs w' = certs w"
    by (auto simp: recordAndRespond_def Let_def)
  with uniq show ?thesis
    by (simp add: grows_refl)
next
  case (Inr st)
  with run have "certs w' = st"
    by (auto simp: recordAndRespond_def Let_def)
  moreover have "evolves c (recordVerification_doc (now e) c)"
    by (simp add: evolves_def recordVerification_doc_def)
  ultimately show ?thesis
    using grows_save_existing [OF uniq mem _ Inr] by simp
qed

lemma verifyCertificateById_grows:
  assumes uniq: "distinct (map cid (certs w))"
    and run: "verifyCertificateById w e i = (r, w')"
  shows "grows (certs w) (certs w')"
proof (cases "down e CertFindById \<or> findById (certs w) i = None")
  case True
  with run have "certs w' = certs w"
    by (auto simp: verifyCertificateById_def split: if_splits)
  with uniq show ?thesis
    by (simp add: grows_refl)
next
  case False
  then obtain c where c: "findById (certs w) i = Some c" and up: "\<not> down e CertFindById"
    by auto
  obtain bv w1 where cc: "crossCheck w e c = (bv, w1)"
    by (cases "crossCheck w e c")
  with run c up have rr: "recordAndRespond w1 e c bv ''Verification failed'' = (r, w')"
    by (simp add: verifyCertificateById_def)
  from crossCheck_certs [OF cc] have same: "certs w1 = certs w" .
  from findById_mem [OF c] same have "c \<in> set (certs w1)"
    by simp
  with recordAndRespond_grows [OF _ _ rr] uniq same show ?thesis
    by simp
qed

lemma findByHash_mem: "findByHash st h = Some c \<Longrightarrow> c \<in> set st"
  unfolding findByHash_def by (auto dest: find_Some_mem)

lemma findByApiCode_mem: "findByApiCode st a = Some c \<Longrightarrow> c \<in> set st"
  unfolding findByApiCode_def by (auto dest: find_Some_mem)

lemma verifyCertificateByHash_grows:
  assumes uniq: "distinct (map cid (certs w))"
    and run: "verifyCertificateByHash w e h = (r, w')"
  shows "grows (certs w) (certs w')"
proof (cases "down e CertFindByHash \<or> findByHash (certs w) h = None")
  case True
  with run have "certs w' = certs w"
    by (auto simp: verifyCertificateByHash_def split: if_splits)
  with uniq show ?thesis
    by (simp add: grows_refl)
next
  case False
  then obtain c where c: "findByHash (certs w) h = Some c" and up: "\<not> down e CertFindByHash"
    by auto
  have "\<exists>w1 bv. certs w1 = certs w \<and>
      recordAndRespond w1 e c bv ''Verification failed'' = (r, w')"
  proof (cases "bc_verifyCertificateByHash (contract e) h")
    case (Inl err)
    let ?w1 = "w\<lparr>ledgerCalls := ledgerCalls w @ [VerifyByHashCall h False]\<rparr>"
    from Inl run c up have "recordAndRespond ?w1 e c None ''Verification failed'' = (r, w')"
      by (simp add: verifyCertificateByHash_def)
    moreover have "certs ?w1 = certs w"
      by simp
    ultimately show ?thesis
      by blast
  next
    case (Inr v)
    let ?w1 = "w\<lparr>ledgerCalls := ledgerCalls w @ [VerifyByHashCall h True]\<rparr>"
    from Inr run c up
    have "recordAndRespond ?w1 e c (Some (ByHash v)) ''Verification failed'' = (r, w')"
      by (simp add: verifyCertificateByHash_def)
    moreover have "certs ?w1 = certs w"
      by simp
    ultimately show ?thesis
      by blast
  qed
  then obtain w1 bv where same: "certs w1 = certs w"
    and rr: "recordAndRespond w1 e c bv ''Verification failed'' = (r, w')"
    by blast
  from findByHash_mem [OF c] same have "c \<in> set (certs w1)"
    by simp
  with recordAndRespond_grows [OF _ _ rr] uniq same show ?thesis
    by simp
qed

lemma verifyByQRCode_grows:
  assumes uniq: "distinct (map cid (certs w))"
    and run: "verifyByQRCode w e q = (r, w')"
  shows "grows (certs w) (certs w')"
proof -
  from run have "certs w' = certs w \<or>
      (\<exists>c bv w1. c \<in> set (certs w) \<and> crossCheck w e c = (bv, w1) \<and>
         recordAndRespond w1 e c bv ''QR verification failed'' = (r, w'))"
    by (auto simp: verifyByQRCode_def split: if_splits option.splits prod.splits
        dest: findById_mem findByHash_mem)
  then show ?thesis
  proof
    assume "certs w' = certs w"
    with uniq show ?thesis
      by (simp add: grows_refl)
  next
    assume "\<exists>c bv w1. c \<in> set (certs w) \<and> crossCheck w e c = (bv, w1) \<and>
         recordAndRespond w1 e c bv ''QR verification failed'' = (r, w')"
    then obtain c bv w1 where mem: "c \<in> set (certs w)"
      and cc: "crossCheck w e c = (bv, w1)"
      and rr: "recordAndRespond w1 e c bv ''QR verification failed'' = (r, w')"
      by blast
    from crossCheck_certs [OF cc] have same: "certs w1 = certs w" .
    with recordAndRespond_grows [OF _ _ rr] uniq mem show ?thesis
      by simp
  qed
qed

lemma getCertificateByApiCode_grows:
  assumes uniq: "distinct (map cid (certs w))"
    and run: "getCertificateByApiCode w e code = (r, w')"
  shows "grows (certs w) (certs w')"
proof (cases "down e CertFindByApiCode \<or> findByApiCode (certs w) code = None")
  case True
  with run have "certs w' = certs w"
    by (auto simp: getCertificateByApiCode_def split: if_splits)
  with uniq show ?thesis
    by (simp add: grows_refl)
next
  case False
  then obtain c where c: "findByApiCode (certs w) code = Some c"
    and up: "\<not> down e CertFindByApiCode"
    by auto
  show ?thesis
  proof (cases "save_existing (down e SaveVerification) SaveVerification False (certs w)
                  (recordVerification_doc (now e) c)")
    case (Inl err)
    with run c up have "certs w' = certs w"
      by (simp add: getCertificateByApiCode_def Let_def)
    with uniq show ?thesis
      by (simp add: grows_refl)
  next
    case (Inr st)
    with run c up have "certs w' = st"
      by (auto simp: getCertificateByApiCode_def Let_def)
    moreover have "evolves c (recordVerification_doc (now e) c)"
      by (simp add: evolves_def recordVerification_doc_def)
    ultimately show ?thesis
      using grows_save_existing [OF uniq findByApiCode_mem [OF c] _ Inr] by simp
  qed
qed

lemma revokeLocal_grows:
  assumes uniq: "distinct (map cid (certs w))" and mem: "c \<in> set (certs w)"
    and run: "revokeLocal w e c reason = (r, w')"
  shows "grows (certs w) (certs w')"
proof (cases "save_existing (down e SaveRevoked) SaveRevoked False (certs w)
                (c\<lparr>status := REVOKED,
                   metadata := (metadata c)\<lparr>revocationReason := Some reason\<rparr>\<rparr>)")
  case (Inl err)
  with run have "certs w' = certs w"
    by (auto simp: revokeLocal_def Let_def)
  with uniq show ?thesis
    by (simp add: grows_refl)
next
  case (Inr st)
  with run have "certs w' = st"
    by (auto simp: revokeLocal_def Let_def)
  moreover have "evolves c (c\<lparr>status := REVOKED,
                   metadata := (metadata c)\<lparr>revocationReason := Some reason\<rparr>\<rparr>)"
    by (simp add: evolves_def)
  ultimately show ?thesis
    using grows_save_existing [OF uniq mem _ Inr] by simp
qed

lemma revokeCertificate_grows:
  assumes uniq: "distinct (map cid (certs w))"
    and run: "revokeCertificate w e i reason = (r, w')"
  shows "grows (certs w) (certs w')"
proof -
  from run have "certs w' = certs w \<or>
      (\<exists>c w1. c \<in> set (certs w) \<and> certs w1 = certs w \<and>
         revokeLocal w1 e c reason = (r, w'))"
  proof (cases "findById (certs w) i")
    case None
    with run show ?thesis
      by (auto simp: revokeCertificate_def split: if_splits)
  next
    case (Some c)
    note mem = findById_mem [OF Some]
    show ?thesis
    proof (cases "down e CertFindById")
      case True
      with run show ?thesis
        by (simp add: revokeCertificate_def)
    next
      case False
      show ?thesis
      proof (cases "tokenId c = None \<or> tokenId c = Some 0")
        case True
        with run Some False have "revokeLocal w e c reason = (r, w')"
          by (auto simp: revokeCertificate_def)
        with mem show ?thesis
          by blast
      next
        case nz: False
        then obtain t where t: "tokenId c = Some t" "t \<noteq> 0"
          by auto
        show ?thesis
        proof (cases "bc_revokeCertificate (contract e) t")
          case (Inl err)
          with run Some False t show ?thesis
            by (auto simp: revokeCertificate_def)
        next
          case (Inr receipt)
          let ?w1 = "w\<lparr>ledgerCalls := ledgerCalls w @ [RevokeCall t True]\<rparr>"
          from Inr run Some False t have "revokeLocal ?w1 e c reason = (r, w')"
            by (simp add: revokeCertificate_def)
          moreover have "certs ?w1 = certs w"
            by simp
          ultimately show ?thesis
            using mem by blast
        qed
      qed
    qed
  qed
  then show ?thesis
  proof
    assume "certs w' = certs w"
    with uniq show ?thesis
      by (simp add: grows_refl)
  next
    assume "\<exists>c w1. c \<in> set (certs w) \<and> certs w1 = certs w \<and>
         revokeLocal w1 e c reason = (r, w')"
    then obtain c w1 where "c \<in> set (certs w)" and same: "certs w1 = certs w"
      and rl: "revokeLocal w1 e c reason = (r, w')"
      by blast
    with revokeLocal_grows [OF _ _ rl] uniq show ?thesis
      by simp
  qed
qed

lemma issuePending_grows:
  assumes uniq: "distinct (map cid (certs w))" and mem: "d \<in> set (certs w)"
    and same: "cid c = cid d" and live: "status d \<noteq> REVOKED"
    and cnt: "verificationCount d \<le> verificationCount c"
    and run: "issuePending w e tm c link qr = (r, w')"
  shows "grows (certs w) (certs w')"
proof (cases "save_existing (down e SavePending) SavePending tm (certs w)
                (c\<lparr>status := PENDING\<rparr>)")
  case (Inl err)
  with run have "certs w' = certs w"
    by (auto simp: issuePending_def Let_def)
  with uniq show ?thesis
    by (simp add: grows_refl)
next
  case (Inr st)
  with run have "certs w' = st"
    by (auto simp: issuePending_def Let_def)
  moreover have "evolves d (c\<lparr>status := PENDING\<rparr>)"
    using same live cnt by (simp add: evolves_def)
  ultimately show ?thesis
    using grows_save_existing [OF uniq mem _ Inr] by simp
qed

lemma issueAnchor_grows:
  assumes uniq: "distinct (map cid (certs w))" and mem: "c \<in> set (certs w)"
    and live: "status c \<noteq> REVOKED"
    and run: "issueAnchor w e col c link qr = (r, w')"
  shows "grows (certs w) (certs w')"
proof (cases "bc_mintCertificate (contract e) (mockRandom e) (col_walletAddress col)
                (academicData c) (certificateHash (blockchain c))")
  case (Inl err)
  let ?w1 = "w\<lparr>ledgerCalls := ledgerCalls w @
      [MintCall (col_walletAddress col) (certificateHash (blockchain c)) False]\<rparr>"
  from Inl run have p: "issuePending ?w1 e False c link qr = (r, w')"
    by (simp add: issueAnchor_def Let_def)
  from issuePending_grows [OF _ _ _ live _ p] uniq mem show ?thesis
    by simp
next
  case (Inr m)
  let ?w1 = "w\<lparr>ledgerCalls := ledgerCalls w @
      [MintCall (col_walletAddress col) (certificateHash (blockchain c)) True]\<rparr>"
  let ?cm = "c\<lparr>tokenId := mr_tokenId m,
                blockchain := (blockchain c)
                  \<lparr>transactionHash := Some (mr_transactionHash m),
                   blockNumber := Some (mr_blockNumber m)\<rparr>,
                status := MINTED\<rparr>"
  show ?thesis
  proof (cases "save_existing (down e SaveMinted) SaveMinted True (certs ?w1) ?cm")
    case failedSave: (Inl err)
    with Inr run have p: "issuePending ?w1 e True ?cm link qr = (r, w')"
      by (simp add: issueAnchor_def Let_def)
    from issuePending_grows [OF _ _ _ live _ p] uniq mem show ?thesis
      by simp
  next
    case saved: (Inr st)
    then have saved': "save_existing (down e SaveMinted) SaveMinted True (certs w) ?cm = Inr st"
      by simp
    have "evolves c ?cm"
      using live by (simp add: evolves_def)
    from grows_save_existing [OF uniq mem this saved'] have g1: "grows (certs w) st" .
    show ?thesis
    proof (cases "down e Populate")
      case False
      with Inr saved run have "certs w' = st"
        by (auto simp: issueAnchor_def Let_def)
      with g1 show ?thesis by simp
    next
      case True
      with Inr saved run have p: "issuePending (?w1\<lparr>certs := st\<rparr>) e False ?cm link qr = (r, w')"
        by (simp add: issueAnchor_def Let_def)
      from g1 have u2: "distinct (map cid st)"
        by (simp add: grows_def)
      from save_existing_found [OF saved'] have "?cm \<in> set st"
        by (auto dest: findById_mem)
      with issuePending_grows [OF _ _ _ _ _ p, where d = ?cm] u2 have "grows st (certs w')"
        by simp
      with g1 show ?thesis
        by (rule grows_trans)
    qed
  qed
qed

lemma issueCertificate_grows:
  assumes uniq: "distinct (map cid (certs w))"
    and run: "issueCertificate w e issuerId req = (r, w')"
  shows "grows (certs w) (certs w')"
proof (cases "down e UserFind")
  case True
  with run have "certs w' = certs w"
    by (auto simp: issueCertificate_def)
  with uniq show ?thesis
    by (simp add: grows_refl)
next
  case up: False
  show ?thesis
  proof (cases "map_of (users w) issuerId")
    case None
    with run up have "certs w' = certs w"
      by (auto simp: issueCertificate_def)
    with uniq show ?thesis
      by (simp add: grows_refl)
  next
    case issuer: (Some issuer)
    show ?thesis
    proof (cases "user_college issuer")
      case None
      with run up issuer have "certs w' = certs w"
        by (auto simp: issueCertificate_def)
      with uniq show ?thesis
        by (simp add: grows_refl)
    next
      case col: (Some col)
      let ?c = "draftCertificate e issuerId col req"
      let ?link = "verificationLinkOf e ?c"
      show ?thesis
      proof (cases "save_new (down e SaveCreated) SaveCreated (certs w) ?c")
        case (Inl err)
        with run up issuer col have "certs w' = certs w"
          by (auto simp: issueCertificate_def)
        with uniq show ?thesis
          by (simp add: grows_refl)
      next
        case created: (Inr st1)
        from grows_save_new [OF uniq created] have g1: "grows (certs w) st1" .
        then have u1: "distinct (map cid st1)"
          by (simp add: grows_def)
        show ?thesis
        proof (cases "generateQRCode (clientUrl e) (qrRender e) ?link")
          case (Inl err)
          with run up issuer col created have "certs w' = st1"
            by (auto simp: issueCertificate_def Let_def)
          with g1 show ?thesis by simp
        next
          case rendered: (Inr qr)
          let ?c3 = "withLink ?c ?link qr"
          show ?thesis
          proof (cases "save_existing (down e SaveLinked) SaveLinked False st1 ?c3")
            case (Inl err)
            with run up issuer col created rendered have "certs w' = st1"
              by (auto simp: issueCertificate_def Let_def)
            with g1 show ?thesis by simp
          next
            case linked: (Inr st2)
            with run up issuer col created rendered
            have anchor: "issueAnchor (w\<lparr>certs := st2\<rparr>) e col ?c3 ?link qr = (r, w')"
              by (simp add: issueCertificate_def Let_def)
            from save_new_fresh(1) [OF created] have m1: "?c \<in> set st1"
              by simp
            have "evolves ?c ?c3"
              by (simp add: evolves_def withLink_def)
            from grows_save_existing [OF u1 m1 this linked] have g2: "grows st1 st2" .
            then have u2: "distinct (map cid (certs (w\<lparr>certs := st2\<rparr>)))"
              by (simp add: grows_def)
            from save_existing_found [OF linked]
            have m2: "?c3 \<in> set (certs (w\<lparr>certs := st2\<rparr>))"
              by (auto dest: findById_mem)
            have live: "status ?c3 \<noteq> REVOKED"
              by (simp add: withLink_def draft_fields)
            from issueAnchor_grows [OF u2 m2 live anchor] have "grows st2 (certs w')"
              by simp
            with g1 g2 show ?thesis
              by (meson grows_trans)
          qed
        qed
      qed
    qed
  qed
qed

lemma perform_grows:
  assumes "uniqueIds w" and "perform w e oper = (r, w')"
  shows "grows (certs w) (certs w')"
  using assms
  by (cases oper)
    (simp_all add: perform_def uniqueIds_def issueCertificate_grows revokeCertificate_grows
      verifyCertificateById_grows verifyCertificateByHash_grows verifyByQRCode_grows
      getCertificateByApiCode_grows)

lemma serve_grows:
  "uniqueIds w \<Longrightarrow> grows (certs w) (certs (serve w reqs))"
proof (induction reqs arbitrary: w)
  case Nil
  then show ?case
    by (simp add: uniqueIds_def grows_refl)
next
  case (Cons a reqs)
  obtain e oper where a: "a = (e, oper)"
    by (cases a)
  let ?w1 = "snd (perform w e oper)"
  have "perform w e oper = (fst (perform w e oper), ?w1)"
    by simp
  from perform_grows [OF Cons.prems this] have g1: "grows (certs w) (certs ?w1)" .
  then have "uniqueIds ?w1"
    by (simp add: grows_def uniqueIds_def)
  from Cons.IH [OF this] have "grows (certs ?w1) (certs (serve ?w1 reqs))" .
  with g1 show ?case
    unfolding a by (simp add: grows_trans)
qed

section \<open>Revoked is terminal\<close>






section \<open>The verification counter\<close>

text \<open>
  C7 as stated fails: two interleaved verifications of the sample credential both
  answer 200, and the counter goes from 0 to 1, where the same two requests one after
  the other take it to 2.
\<close>

theorem concurrent_verifications_lose_update:
  "countOf (worldWith sampleCert) sampleId = Some 0 \<and>
   httpStatus (fst (verifyTwiceInterleaved (worldWith sampleCert) sampleEnv sampleId)) = 200 \<and>
   httpStatus (fst (snd (verifyTwiceInterleaved (worldWith sampleCert) sampleEnv sampleId))) = 200 \<and>
   countOf (snd (snd (verifyTwiceInterleaved (worldWith sampleCert) sampleEnv sampleId))) sampleId
     = Some 1 \<and>
   countOf
     (serve (worldWith sampleCert)
        [(sampleEnv, VerifyById sampleId), (sampleEnv, VerifyById sampleId)]) sampleId
     = Some 2"
  by code_simp

lemma recordAndRespond_counts:
  assumes run: "recordAndRespond w e c bv msg = (r, w')" and ok: "httpStatus r = 200"
  shows "dataCertificate r = Some (recordVerification_doc (now e) c) \<and>
         findById (certs w') (cid c) = Some (recordVerification_doc (now e) c)"
proof (cases "save_existing (down e SaveVerification) SaveVerification False (certs w)
                (recordVerification_doc (now e) c)")
  case (Inl err)
  with run ok show ?thesis
    by (auto simp: recordAndRespond_def Let_def failed_def reply_def)
next
  case (Inr st)
  with run have "certs w' = st"
    and "dataCertificate r = Some (recordVerification_doc (now e) c)"
    by (auto simp: recordAndRespond_def Let_def)
  with save_existing_found [OF Inr] show ?thesis
    by (simp add: recordVerification_doc_def)
qed

lemma verifyCertificateById_shape:
  assumes run: "verifyCertificateById w e i = (r, w')" and ok: "httpStatus r = 200"
  shows "\<exists>c bv w1 msg. c \<in> set (certs w) \<and> certs w1 = certs w \<and>
           recordAndRespond w1 e c bv msg = (r, w')"
proof (cases "down e CertFindById \<or> findById (certs w) i = None")
  case True
  with run ok show ?thesis
    by (auto simp: verifyCertificateById_def failed_def notFound_def reply_def
        split: if_splits)
next
  case False
  then obtain c where c: "findById (certs w) i = Some c" and up: "\<not> down e CertFindById"
    by auto
  obtain bv w1 where cc: "crossCheck w e c = (bv, w1)"
    by (cases "crossCheck w e c")
  with run c up have "recordAndRespond w1 e c bv ''Verification failed'' = (r, w')"
    by (simp add: verifyCertificateById_def)
  with crossCheck_certs [OF cc] findById_mem [OF c] show ?thesis
    by blast
qed

lemma verifyCertificateByHash_shape:
  assumes run: "verifyCertificateByHash w e h = (r, w')" and ok: "httpStatus r = 200"
  shows "\<exists>c bv w1 msg. c \<in> set (certs w) \<and> certs w1 = certs w \<and>
           recordAndRespond w1 e c bv msg = (r, w')"
proof (cases "down e CertFindByHash \<or> findByHash (certs w) h = None")
  case True
  with run ok show ?thesis
    by (auto simp: verifyCertificateByHash_def failed_def notFound_def reply_def
        split: if_splits)
next
  case False
  then obtain c where c: "findByHash (certs w) h = Some c" and up: "\<not> down e CertFindByHash"
    by auto
  note mem = findByHash_mem [OF c]
  show ?thesis
  proof (cases "bc_verifyCertificateByHash (contract e) h")
    case (Inl err)
    let ?w1 = "w\<lparr>ledgerCalls := ledgerCalls w @ [VerifyByHashCall h False]\<rparr>"
    from Inl run c up have "recordAndRespond ?w1 e c None ''Verification failed'' = (r, w')"
      by (simp add: verifyCertificateByHash_def)
    moreover have "certs ?w1 = certs w"
      by simp
    ultimately show ?thesis
      using mem by blast
  next
    case (Inr v)
    let ?w1 = "w\<lparr>ledgerCalls := ledgerCalls w @ [VerifyByHashCall h True]\<rparr>"
    from Inr run c up
    have "recordAndRespond ?w1 e c (Some (ByHash v)) ''Verification failed'' = (r, w')"
      by (simp add: verifyCertificateByHash_def)
    moreover have "certs ?w1 = certs w"
      by simp
    ultimately show ?thesis
      using mem by blast
  qed
qed

lemma verifyByQRCode_shape:
  assumes run: "verifyByQRCode w e q = (r, w')" and ok: "httpStatus r = 200"
  shows "\<exists>c bv w1 msg. c \<in> set (certs w) \<and> certs w1 = certs w \<and>
           recordAndRespond w1 e c bv msg = (r, w')"
proof -
  from run ok have "\<exists>c bv w1. c \<in> set (certs w) \<and> crossCheck w e c = (bv, w1) \<and>
         recordAndRespond w1 e c bv ''QR verification failed'' = (r, w')"
    by (auto simp: verifyByQRCode_def failed_def notFound_def reply_def
        split: if_splits option.splits prod.splits dest: findById_mem findByHash_mem)
  then obtain c bv w1 where "c \<in> set (certs w)" and cc: "crossCheck w e c = (bv, w1)"
    and "recordAndRespond w1 e c bv ''QR verification failed'' = (r, w')"
    by blast
  with crossCheck_certs [OF cc] show ?thesis
    by blast
qed

lemma verification_step:
  assumes uniq: "uniqueIds w" and kind: "isVerification oper"
    and run: "perform w e oper = (r, w')" and ok: "httpStatus r = 200"
  shows "\<exists>c. findById (certs w) (cid c) = Some c \<and>
           dataCertificate r = Some (recordVerification_doc (now e) c) \<and>
           findById (certs w') (cid c) = Some (recordVerification_doc (now e) c)"
proof -
  have "\<exists>c bv w1 msg. c \<in> set (certs w) \<and> certs w1 = certs w \<and>
           recordAndRespond w1 e c bv msg = (r, w')"
  proof (cases oper)
    case (VerifyById i)
    with run have "verifyCertificateById w e i = (r, w')"
      by (simp add: perform_def)
    then show ?thesis
      using ok by (rule verifyCertificateById_shape)
  next
    case (VerifyByHash h)
    with run have "verifyCertificateByHash w e h = (r, w')"
      by (simp add: perform_def)
    then show ?thesis
      using ok by (rule verifyCertificateByHash_shape)
  next
    case (VerifyByQR q)
    with run have "verifyByQRCode w e q = (r, w')"
      by (simp add: perform_def)
    then show ?thesis
      using ok by (rule verifyByQRCode_shape)
  qed (use kind in \<open>simp_all add: isVerification_def\<close>)
  then obtain c bv w1 msg where mem: "c \<in> set (certs w)"
    and rr: "recordAndRespond w1 e c bv msg = (r, w')"
    by blast
  from mem_findById [OF _ mem] uniq have "findById (certs w) (cid c) = Some c"
    by (simp add: uniqueIds_def)
  with recordAndRespond_counts [OF rr ok] show ?thesis
    by blast
qed

text \<open>
  C7, amended. With unique identifiers and requests served one after the other: a
  verification (by identifier, fingerprint or QR payload) that answers 200 raises the
  stored counter of the credential it reports by exactly one; a second such verification
  of the same credential, served after the first, takes it to exactly two more; and
  whatever requests follow, the counter does not fall.
\<close>

theorem sequential_verifications_count:
  assumes uniq: "uniqueIds w" and kind: "isVerification oper"
    and run: "perform w e oper = (r, w1)" and ok: "httpStatus r = 200"
  shows "\<exists>c n. dataCertificate r = Some c \<and>
           countOf w (cid c) = Some n \<and> countOf w1 (cid c) = Some (n + 1) \<and>
           (\<forall>e2 oper2 c2.
              isVerification oper2 \<and> httpStatus (fst (perform w1 e2 oper2)) = 200 \<and>
              dataCertificate (fst (perform w1 e2 oper2)) = Some c2 \<and> cid c2 = cid c \<longrightarrow>
                countOf (snd (perform w1 e2 oper2)) (cid c) = Some (n + 2)) \<and>
           (\<forall>reqs. \<exists>m. countOf (serve w1 reqs) (cid c) = Some m \<and> n + 1 \<le> m)"
proof -
  from verification_step [OF uniq kind run ok] obtain c where
    before: "findById (certs w) (cid c) = Some c"
    and data: "dataCertificate r = Some (recordVerification_doc (now e) c)"
    and after: "findById (certs w1) (cid c) = Some (recordVerification_doc (now e) c)"
    by blast
  let ?c1 = "recordVerification_doc (now e) c"
  let ?n = "verificationCount c"
  have id1: "cid ?c1 = cid c" and n1: "verificationCount ?c1 = ?n + 1"
    by (simp_all add: recordVerification_doc_def)
  from perform_grows [OF uniq run] have uniq1: "uniqueIds w1"
    by (simp add: grows_def uniqueIds_def)
  have twice: "countOf (snd (perform w1 e2 oper2)) (cid ?c1) = Some (?n + 2)"
    if k2: "isVerification oper2" and ok2: "httpStatus (fst (perform w1 e2 oper2)) = 200"
      and d2: "dataCertificate (fst (perform w1 e2 oper2)) = Some c2" and same: "cid c2 = cid ?c1"
    for e2 oper2 c2
  proof -
    have run2: "perform w1 e2 oper2 = (fst (perform w1 e2 oper2), snd (perform w1 e2 oper2))"
      by simp
    from verification_step [OF uniq1 k2 run2 ok2] obtain b where
      b0: "findById (certs w1) (cid b) = Some b"
      and b1: "dataCertificate (fst (perform w1 e2 oper2)) = Some (recordVerification_doc (now e2) b)"
      and b2: "findById (certs (snd (perform w1 e2 oper2))) (cid b)
                 = Some (recordVerification_doc (now e2) b)"
      by blast
    from b1 d2 same have "cid b = cid c"
      by (simp add: recordVerification_doc_def)
    with b0 after have "b = ?c1"
      by simp
    with b2 show ?thesis
      by (simp add: countOf_def recordVerification_doc_def)
  qed
  have later: "\<exists>m. countOf (serve w1 reqs) (cid ?c1) = Some m \<and> ?n + 1 \<le> m" for reqs
  proof -
    from serve_grows [OF uniq1, of reqs] after obtain c' where
      "findById (certs (serve w1 reqs)) (cid c) = Some c'" and "evolves ?c1 c'"
      unfolding grows_def by blast
    then show ?thesis
      using n1 by (auto simp: countOf_def evolves_def id1)
  qed
  have "dataCertificate r = Some ?c1 \<and>
        countOf w (cid ?c1) = Some ?n \<and> countOf w1 (cid ?c1) = Some (?n + 1) \<and>
        (\<forall>e2 oper2 c2.
           isVerification oper2 \<and> httpStatus (fst (perform w1 e2 oper2)) = 200 \<and>
           dataCertificate (fst (perform w1 e2 oper2)) = Some c2 \<and> cid c2 = cid ?c1 \<longrightarrow>
             countOf (snd (perform w1 e2 oper2)) (cid ?c1) = Some (?n + 2)) \<and>
        (\<forall>reqs. \<exists>m. countOf (serve w1 reqs) (cid ?c1) = Some m \<and> ?n + 1 \<le> m)"
    using data before after twice later by (simp add: countOf_def id1 n1)
  then show ?thesis
    by blast
qed

theorem sequential_verifications_count_witness:
  "uniqueIds (worldWith sampleCert) \<and> isVerification (VerifyById sampleId) \<and>
   httpStatus (fst (perform (worldWith sampleCert) sampleEnv (VerifyById sampleId))) = 200 \<and>
   countOf (worldWith sampleCert) sampleId = Some 0 \<and>
   countOf (snd (perform (worldWith sampleCert) sampleEnv (VerifyById sampleId))) sampleId
     = Some 1 \<and>
   httpStatus (fst (perform (snd (perform (worldWith sampleCert) sampleEnv (VerifyById sampleId)))
      sampleEnv (VerifyByHash ''h1''))) = 200 \<and>
   countOf (snd (perform (snd (perform (worldWith sampleCert) sampleEnv (VerifyById sampleId)))
      sampleEnv (VerifyByHash ''h1''))) sampleId = Some 2"
proof -
  let ?run = "perform (worldWith sampleCert) sampleEnv (VerifyById sampleId)"
  let ?run2 = "perform (snd ?run) sampleEnv (VerifyByHash ''h1'')"
  have u: "uniqueIds (worldWith sampleCert)"
    by code_simp
  have k: "isVerification (VerifyById sampleId)" and k2: "isVerification (VerifyByHash ''h1'')"
    by (simp_all add: isVerification_def)
  have h: "?run = (fst ?run, snd ?run)"
    by simp
  have ok: "httpStatus (fst ?run) = 200"
    by code_simp
  have ok2: "httpStatus (fst ?run2) = 200"
    by code_simp
  have d: "map_option cid (dataCertificate (fst ?run)) = Some sampleId"
    by code_simp
  have d2: "map_option cid (dataCertificate (fst ?run2)) = Some sampleId"
    by code_simp
  have b: "countOf (worldWith sampleCert) sampleId = Some 0"
    by code_simp
  from sequential_verifications_count [OF u k h ok] obtain c n where
    c: "dataCertificate (fst ?run) = Some c"
    and n: "countOf (worldWith sampleCert) (cid c) = Some n"
    and n1: "countOf (snd ?run) (cid c) = Some (n + 1)"
    and twice: "\<forall>e2 oper2 c2.
        isVerification oper2 \<and> httpStatus (fst (perform (snd ?run) e2 oper2)) = 200 \<and>
        dataCertificate (fst (perform (snd ?run) e2 oper2)) = Some c2 \<and> cid c2 = cid c \<longrightarrow>
          countOf (snd (perform (snd ?run) e2 oper2)) (cid c) = Some (n + 2)"
    by blast
  from c d have i: "cid c = sampleId"
    by simp
  with n b have z: "n = 0"
    by simp
  from d2 obtain c2 where c2: "dataCertificate (fst ?run2) = Some c2" and i2: "cid c2 = sampleId"
    by auto
  note second = twice [rule_format, where ?oper2.0 = "VerifyByHash ''h1''" and ?e2.0 = sampleEnv
      and ?c2.0 = c2]
  from second k2 ok2 c2 i2 i have "countOf (snd ?run2) (cid c) = Some (n + 2)"
    by simp
  with n1 i z u k ok ok2 b show ?thesis
    by simp
qed

end
